theory Spec2Isabelle
  imports Complex_Main
begin

section \<open>Python values and strings\<close>

text \<open>
  The service (\<^verbatim>\<open>src/main.py\<close>) is glue around four client libraries. The model keeps
  every function of the file that a handler runs, and takes the libraries (the document
  parser, the completion service, the JSON parser, the database driver, the identifier
  constructor, the response-model validator) as fields of an environment record: a
  library's answer is whatever the environment says, the code around it is as written.

  A Python \<^verbatim>\<open>str\<close> is a \<open>string\<close>: a list of characters, each one a code point below
  256. \<open>isspace\<close> and \<open>lower_char\<close> are Python's \<^verbatim>\<open>str.isspace\<close> and \<^verbatim>\<open>str.lower\<close> on
  that range.
\<close>

definition isspace :: "char \<Rightarrow> bool" where
  "isspace c = (of_char c \<in> {9, 10, 11, 12, 13, 28, 29, 30, 31, 32, 133, 160 :: nat})"

definition lower_char :: "char \<Rightarrow> char" where
  "lower_char c =
     (let n = (of_char c :: nat)
      in if (65 \<le> n \<and> n \<le> 90) \<or> (192 \<le> n \<and> n \<le> 222 \<and> n \<noteq> 215)
         then char_of (n + 32) else c)"

text \<open>\<^verbatim>\<open>s.lower()\<close>, \<^verbatim>\<open>s.endswith(suffix)\<close>, \<^verbatim>\<open>s.strip()\<close>.\<close>

definition lower :: "string \<Rightarrow> string" where
  "lower s = map lower_char s"

definition endswith :: "string \<Rightarrow> string \<Rightarrow> bool" where
  "endswith s suffix =
     (length suffix \<le> length s \<and> drop (length s - length suffix) s = suffix)"

definition strip :: "string \<Rightarrow> string" where
  "strip s = rev (dropWhile isspace (rev (dropWhile isspace s)))"

text \<open>
  \<^verbatim>\<open>s.split()\<close> with no separator: the maximal runs of non-whitespace characters, in
  order. \<open>split_from cur s\<close> scans \<open>s\<close> with the word read so far in \<open>cur\<close>.
\<close>

fun split_from :: "string \<Rightarrow> string \<Rightarrow> string list" where
  "split_from cur [] = (if cur = [] then [] else [cur])"
| "split_from cur (c # cs) =
     (if isspace c
      then (if cur = [] then split_from [] cs else cur # split_from [] cs)
      else split_from (cur @ [c]) cs)"

definition split :: "string \<Rightarrow> string list" where
  "split s = split_from [] s"

text \<open>\<^verbatim>\<open>" ".join(words)\<close>.\<close>

fun join_space :: "string list \<Rightarrow> string" where
  "join_space [] = []"
| "join_space [w] = w"
| "join_space (w # v # ws) = w @ '' '' @ join_space (v # ws)"

text \<open>
  The values \<^verbatim>\<open>json.loads\<close> produces. A Python \<^verbatim>\<open>dict\<close> keeps its keys in insertion
  order and has each key once; it is an association list, read with \<open>map_of\<close>. Numbers
  are never inspected by the code beyond their type and truth value.
\<close>

datatype json =
    JNull
  | JBool bool
  | JNum int
  | JStr string
  | JArr "json list"
  | JObj "(string \<times> json) list"

text \<open>Python's truth value of such a value (\<^verbatim>\<open>if v:\<close>).\<close>

fun truthy :: "json \<Rightarrow> bool" where
  "truthy JNull = False"
| "truthy (JBool b) = b"
| "truthy (JNum n) = (n \<noteq> 0)"
| "truthy (JStr s) = (s \<noteq> [])"
| "truthy (JArr xs) = (xs \<noteq> [])"
| "truthy (JObj kvs) = (kvs \<noteq> [])"

section \<open>Exceptions\<close>

text \<open>
  \<open>HTTPException status detail\<close> is FastAPI's exception; \<open>PyExc msg\<close> is any other
  Python exception, with \<open>msg\<close> its \<^verbatim>\<open>str(e)\<close>. \<open>str_exn\<close> is \<^verbatim>\<open>str(e)\<close>; for an
  \<^verbatim>\<open>HTTPException\<close> it is the status code, a colon and the detail.
\<close>

datatype exn = HTTPException nat string | PyExc string

fun show_nat :: "nat \<Rightarrow> string" where
  "show_nat n =
     (if n < 10 then [char_of (48 + n)]
      else show_nat (n div 10) @ [char_of (48 + n mod 10)])"

declare show_nat.simps [simp del]

fun str_exn :: "exn \<Rightarrow> string" where
  "str_exn (HTTPException code detail) = show_nat code @ '': '' @ detail"
| "str_exn (PyExc msg) = msg"

text \<open>
  The status the client sees: the code of an \<^verbatim>\<open>HTTPException\<close>, 500 for an exception
  that nobody handles, 200 for a returned value.
\<close>

fun http_status :: "exn + 'a \<Rightarrow> nat" where
  "http_status (Inr r) = 200"
| "http_status (Inl (HTTPException code detail)) = code"
| "http_status (Inl (PyExc msg)) = 500"

text \<open>
  The text of the \<^verbatim>\<open>AttributeError\<close> for a missing method, with the name of the type
  of the value.
\<close>

definition quoted :: "string \<Rightarrow> string" where
  "quoted s = [CHR 0x27] @ s @ [CHR 0x27]"

fun type_name :: "json \<Rightarrow> string" where
  "type_name JNull = ''NoneType''"
| "type_name (JBool b) = ''bool''"
| "type_name (JNum n) = ''int''"
| "type_name (JStr s) = ''str''"
| "type_name (JArr xs) = ''list''"
| "type_name (JObj kvs) = ''dict''"

definition no_attribute :: "json \<Rightarrow> string \<Rightarrow> string" where
  "no_attribute v method =
     quoted (type_name v) @ '' object has no attribute '' @ quoted method"

section \<open>Records, the environment and the world\<close>

type_synonym object_id = string

text \<open>One entry of the notification list of \<^verbatim>\<open>prepare_email_data\<close>.\<close>

record email_entry =
  e_department :: json
  e_summary :: string
  e_subject :: string
  e_to :: json

text \<open>The document \<^verbatim>\<open>upload_pdf\<close> inserts; the database adds \<^verbatim>\<open>_id\<close>.\<close>

record document =
  d_filename :: string
  d_extracted_text :: string
  d_summary :: string
  d_departments :: "json list"
  d_timestamp :: int
  d_email_data :: "email_entry list"

text \<open>The two prompt templates, with the values interpolated into them.\<close>

datatype prompt =
    SummarizePrompt string
  | AnswerPrompt string string string

text \<open>The Pydantic models \<^verbatim>\<open>SummaryResponse\<close> and \<^verbatim>\<open>ChatResponse\<close>.\<close>

record SummaryResponse =
  r_filename :: string
  r_departments :: "(string \<times> string) list list"
  r_summary :: string
  r_mongo_id :: string

record ChatResponse =
  answer :: string

text \<open>The dictionary \<^verbatim>\<open>get_all_documents\<close> returns.\<close>

record listing =
  l_data :: "(string \<times> document) list"
  l_page :: int
  l_limit :: int
  l_total :: int
  l_total_pages :: int
  l_has_next :: bool
  l_has_prev :: bool

text \<open>
  The libraries. \<open>Inl msg\<close> is the library raising an exception of its own (never an
  \<^verbatim>\<open>HTTPException\<close>), \<open>msg\<close> its \<^verbatim>\<open>str(e)\<close>.
  \<^item> \<open>ObjectId\<close>: \<^verbatim>\<open>bson.ObjectId(s)\<close>; \<open>Inl msg\<close> is \<^verbatim>\<open>InvalidId\<close>.
  \<^item> \<open>file_read\<close>: \<^verbatim>\<open>await file.read()\<close>.
  \<^item> \<open>process_document\<close>: the Document AI call, returning \<^verbatim>\<open>response.document.text\<close>.
  \<^item> \<open>chat_completions\<close>: the Azure OpenAI call, returning
    \<^verbatim>\<open>response.choices[0].message.content\<close> (\<open>None\<close> when the content is \<^verbatim>\<open>None\<close>).
  \<^item> \<open>json_loads\<close>: \<^verbatim>\<open>json.loads\<close>; \<open>None\<close> is \<^verbatim>\<open>JSONDecodeError\<close>.
  \<^item> \<open>py_str\<close>: Python's rendering of a value that is not a string inside an f-string.
  \<^item> \<open>utcnow\<close>: \<^verbatim>\<open>datetime.utcnow()\<close>.
  \<^item> \<open>insert_one\<close>: the driver's answer to an insert into the given collection: the new
    identifier, or an exception (then nothing is stored).
  \<^item> \<open>find_one_raises\<close>, \<open>count_documents_raises\<close>, \<open>find_raises\<close>: the exception the driver
    raises on that read, if any (\<open>find_raises skip limit\<close>).
  \<^item> \<open>coerce_numbers_to_str\<close>: whether the installed Pydantic turns a number into a string
    for a \<^verbatim>\<open>str\<close> field (version 1 does, version 2 does not).
  \<^item> \<open>validation_error\<close>: the text of Pydantic's \<^verbatim>\<open>ValidationError\<close> for departments it
    rejects.
\<close>

record env =
  ObjectId :: "string \<Rightarrow> string + object_id"
  file_read :: "string + string"
  process_document :: "string \<Rightarrow> string + string"
  chat_completions :: "prompt \<Rightarrow> string + string option"
  json_loads :: "string \<Rightarrow> json option"
  py_str :: "json \<Rightarrow> string"
  utcnow :: int
  insert_one :: "(object_id \<times> document) list \<Rightarrow> document \<Rightarrow> string + object_id"
  find_one_raises :: "object_id \<Rightarrow> string option"
  count_documents_raises :: "string option"
  find_raises :: "int \<Rightarrow> int \<Rightarrow> string option"
  coerce_numbers_to_str :: bool
  validation_error :: "json list \<Rightarrow> string"

text \<open>
  What a handler can change or cause: the collection (identifier and document, in
  insertion order) and the log of the calls made to the outside.
\<close>

datatype event =
    EvProcessDocument string
  | EvChatCompletion prompt
  | EvAddTask "email_entry list"
  | EvInsertOne document
  | EvFindOne object_id
  | EvCountDocuments
  | EvFind int int

record world =
  db :: "(object_id \<times> document) list"
  log :: "event list"

definition emit :: "event \<Rightarrow> world \<Rightarrow> world" where
  "emit ev w = w\<lparr>log := log w @ [ev]\<rparr>"

section \<open>The adapters\<close>

text \<open>
  \<^verbatim>\<open>extract_text_from_pdf\<close>: the call to the document service and the test on its text sit
  in one \<^verbatim>\<open>try\<close>; whatever is raised there leaves as a 500.
\<close>

definition extract_text_from_pdf :: "env \<Rightarrow> string \<Rightarrow> world \<Rightarrow> (exn + string) \<times> world" where
  "extract_text_from_pdf env file_content w =
     (let w1 = emit (EvProcessDocument file_content) w;
          body = (case process_document env file_content of
                    Inl msg \<Rightarrow> Inl (PyExc msg)
                  | Inr text \<Rightarrow>
                      if text = [] then Inl (PyExc ''No text extracted from the document'')
                      else Inr text)
      in (case body of
            Inl e \<Rightarrow>
              Inl (HTTPException 500 (''Failed to extract text from PDF: '' @ str_exn e))
          | Inr text \<Rightarrow> Inr text,
          w1))"

text \<open>
  The shape test both \<^verbatim>\<open>process_with_gpt4o\<close> and \<^verbatim>\<open>upload_pdf\<close> apply to the departments:
  a list, each element a dict with the keys \<^verbatim>\<open>name\<close> and \<^verbatim>\<open>email\<close>.
\<close>

fun department_ok :: "json \<Rightarrow> bool" where
  "department_ok (JObj d) = (map_of d ''name'' \<noteq> None \<and> map_of d ''email'' \<noteq> None)"
| "department_ok _ = False"

fun departments_ok :: "json \<Rightarrow> bool" where
  "departments_ok (JArr ds) = list_all department_ok ds"
| "departments_ok _ = False"

fun isinstance_str :: "json \<Rightarrow> bool" where
  "isinstance_str (JStr s) = True"
| "isinstance_str _ = False"

text \<open>
  Lines 180 to 211 of \<^verbatim>\<open>process_with_gpt4o\<close>: what the body of its \<^verbatim>\<open>try\<close> does with the
  content of the completion. \<^verbatim>\<open>json.loads(None)\<close> is a \<^verbatim>\<open>TypeError\<close>.
\<close>

definition check_gpt4o_result :: "env \<Rightarrow> string option \<Rightarrow> exn + json \<times> json" where
  "check_gpt4o_result env result =
     (case result of
        None \<Rightarrow> Inl (PyExc ''the JSON object must be str, bytes or bytearray, not NoneType'')
      | Some raw \<Rightarrow>
          (case json_loads env raw of
             None \<Rightarrow> Inl (HTTPException 500 ''Invalid JSON response from Azure OpenAI'')
           | Some parsed_result \<Rightarrow>
               (case parsed_result of
                  JObj d \<Rightarrow>
                    (case (map_of d ''summary'', map_of d ''departments'') of
                       (Some summary, Some departments) \<Rightarrow>
                         if \<not> isinstance_str summary
                         then Inl (HTTPException 500 ''Azure OpenAI returned invalid summary type'')
                         else if \<not> departments_ok departments
                         then Inl (HTTPException 500
                                ''Invalid departments format returned from Azure OpenAI'')
                         else Inr (summary, departments)
                     | _ \<Rightarrow>
                         Inl (HTTPException 500 ''Azure OpenAI response missing required fields''))
                | _ \<Rightarrow>
                    Inl (HTTPException 500 ''Azure OpenAI response missing required fields''))))"

text \<open>
  \<^verbatim>\<open>process_with_gpt4o\<close>: the outer \<^verbatim>\<open>except Exception\<close> also catches the
  \<^verbatim>\<open>HTTPException\<close>s raised inside and raises a 500 of its own.
\<close>

definition process_with_gpt4o ::
  "env \<Rightarrow> string \<Rightarrow> world \<Rightarrow> (exn + json \<times> json) \<times> world" where
  "process_with_gpt4o env text w =
     (let w1 = emit (EvChatCompletion (SummarizePrompt text)) w;
          body = (case chat_completions env (SummarizePrompt text) of
                    Inl msg \<Rightarrow> Inl (PyExc msg)
                  | Inr result \<Rightarrow> check_gpt4o_result env result)
      in (case body of
            Inl e \<Rightarrow>
              Inl (HTTPException 500
                     (''Failed to process text with Azure OpenAI: '' @ str_exn e))
          | Inr r \<Rightarrow> Inr r,
          w1))"

text \<open>
  \<^verbatim>\<open>prepare_email_data\<close>. \<^verbatim>\<open>dept.get("email")\<close> on something that is not a dict is an
  \<^verbatim>\<open>AttributeError\<close>, \<^verbatim>\<open>dept["name"]\<close> without the key a \<^verbatim>\<open>KeyError\<close> (whose text is
  the key in quotes). In the f-string a name that is a string stands for itself.
\<close>

definition format_value :: "env \<Rightarrow> json \<Rightarrow> string" where
  "format_value env v = (case v of JStr s \<Rightarrow> s | _ \<Rightarrow> py_str env v)"

fun prepare_email_data ::
  "env \<Rightarrow> json list \<Rightarrow> string \<Rightarrow> string \<Rightarrow> exn + email_entry list" where
  "prepare_email_data env [] summary filename = Inr []"
| "prepare_email_data env (dept # departments) summary filename =
     (case dept of
        JObj d \<Rightarrow>
          (case map_of d ''email'' of
             None \<Rightarrow> prepare_email_data env departments summary filename
           | Some email \<Rightarrow>
               if truthy email then
                 (case map_of d ''name'' of
                    None \<Rightarrow> Inl (PyExc (quoted ''name''))
                  | Some name \<Rightarrow>
                      (case prepare_email_data env departments summary filename of
                         Inl e \<Rightarrow> Inl e
                       | Inr email_list \<Rightarrow>
                           Inr (\<lparr>e_department = name,
                                 e_summary = summary,
                                 e_subject = ''Notice Summary for '' @ format_value env name
                                               @ '': '' @ filename,
                                 e_to = email\<rparr> # email_list)))
               else prepare_email_data env departments summary filename)
      | _ \<Rightarrow> Inl (PyExc (no_attribute dept ''get'')))"

text \<open>
  The construction of \<^verbatim>\<open>SummaryResponse\<close>: \<^verbatim>\<open>departments: List[Dict[str, str]]\<close> makes
  Pydantic check every value of every department against \<^verbatim>\<open>str\<close>.
\<close>

fun str_field :: "env \<Rightarrow> json \<Rightarrow> string option" where
  "str_field env (JStr s) = Some s"
| "str_field env (JNum n) = (if coerce_numbers_to_str env then Some (py_str env (JNum n)) else None)"
| "str_field env (JBool b) = (if coerce_numbers_to_str env then Some (py_str env (JBool b)) else None)"
| "str_field env _ = None"

fun dict_str_str :: "env \<Rightarrow> json \<Rightarrow> (string \<times> string) list option" where
  "dict_str_str env (JObj d) =
     those (map (\<lambda>(k, v). map_option (Pair k) (str_field env v)) d)"
| "dict_str_str env _ = None"

definition new_SummaryResponse ::
  "env \<Rightarrow> string \<Rightarrow> json list \<Rightarrow> string \<Rightarrow> string \<Rightarrow> exn + SummaryResponse" where
  "new_SummaryResponse env filename departments summary mongo_id =
     (case those (map (dict_str_str env) departments) of
        None \<Rightarrow> Inl (PyExc (validation_error env departments))
      | Some ds \<Rightarrow>
          Inr \<lparr>r_filename = filename, r_departments = ds, r_summary = summary,
               r_mongo_id = mongo_id\<rparr>)"

section \<open>The handlers\<close>

text \<open>
  The two \<^verbatim>\<open>except\<close> clauses every handler ends with: an \<^verbatim>\<open>HTTPException\<close> is raised
  again as it is, any other exception becomes a 500 whose detail is the given prefix and
  \<^verbatim>\<open>str(e)\<close>.
\<close>

fun reraise :: "string \<Rightarrow> exn \<Rightarrow> exn" where
  "reraise prefix (HTTPException code detail) = HTTPException code detail"
| "reraise prefix (PyExc msg) = HTTPException 500 (prefix @ str_exn (PyExc msg))"

text \<open>
  Lines 337 to 360 of \<^verbatim>\<open>upload_pdf\<close>: the notification list, the background task, the
  insert and the response. \<open>background_tasks\<close> says whether the parameter holds an object
  (FastAPI injects one) or its default \<^verbatim>\<open>None\<close>.
\<close>

definition new_document ::
  "env \<Rightarrow> string \<Rightarrow> string \<Rightarrow> string \<Rightarrow> json list \<Rightarrow> email_entry list \<Rightarrow> document" where
  "new_document env filename extracted_text summary departments email_data =
     \<lparr>d_filename = filename,
      d_extracted_text = extracted_text,
      d_summary = summary,
      d_departments = departments,
      d_timestamp = utcnow env,
      d_email_data = email_data\<rparr>"

definition upload_store ::
  "env \<Rightarrow> string \<Rightarrow> bool \<Rightarrow> string \<Rightarrow> string \<Rightarrow> json list \<Rightarrow> world
     \<Rightarrow> (exn + SummaryResponse) \<times> world" where
  "upload_store env filename background_tasks extracted_text summary departments w =
     (case prepare_email_data env departments summary filename of
        Inl e \<Rightarrow> (Inl e, w)
      | Inr email_data \<Rightarrow>
          (let w1 = (if background_tasks then emit (EvAddTask email_data) w else w);
               document = new_document env filename extracted_text summary departments
                            email_data;
               w2 = emit (EvInsertOne document) w1
           in (case insert_one env (db w2) document of
                 Inl msg \<Rightarrow> (Inl (PyExc msg), w2)
               | Inr inserted_id \<Rightarrow>
                   (new_SummaryResponse env filename departments summary inserted_id,
                    w2\<lparr>db := db w2 @ [(inserted_id, document)]\<rparr>))))"

text \<open>Lines 320 to 335: read, extract, summarize, and test the two results again.\<close>

definition upload_try ::
  "env \<Rightarrow> string \<Rightarrow> bool \<Rightarrow> world \<Rightarrow> (exn + SummaryResponse) \<times> world" where
  "upload_try env filename background_tasks w =
     (case file_read env of
        Inl msg \<Rightarrow> (Inl (PyExc msg), w)
      | Inr file_content \<Rightarrow>
          (case extract_text_from_pdf env file_content w of
             (Inl e, w1) \<Rightarrow> (Inl e, w1)
           | (Inr extracted_text, w1) \<Rightarrow>
               (case process_with_gpt4o env extracted_text w1 of
                  (Inl e, w2) \<Rightarrow> (Inl e, w2)
                | (Inr (summary, departments), w2) \<Rightarrow>
                    (case summary of
                       JStr s \<Rightarrow>
                         (case departments of
                            JArr ds \<Rightarrow>
                              if list_all department_ok ds
                              then upload_store env filename background_tasks extracted_text s ds w2
                              else (Inl (HTTPException 500
                                      ''Invalid departments format returned from Azure OpenAI''), w2)
                          | _ \<Rightarrow>
                              (Inl (HTTPException 500
                                 ''Invalid departments format returned from Azure OpenAI''), w2))
                     | _ \<Rightarrow>
                         (Inl (HTTPException 500
                            ''Invalid summary format returned from Azure OpenAI''), w2)))))"

text \<open>
  \<^verbatim>\<open>POST /upload\<close>. The test on the file name stands before the \<^verbatim>\<open>try\<close>. The
  \<^verbatim>\<open>finally\<close> clause closes the upload; it touches neither the answer nor the collection
  and is left out.
\<close>

definition upload_pdf ::
  "env \<Rightarrow> string \<Rightarrow> bool \<Rightarrow> world \<Rightarrow> (exn + SummaryResponse) \<times> world" where
  "upload_pdf env filename background_tasks w =
     (if \<not> endswith (lower filename) ''.pdf''
      then (Inl (HTTPException 400 ''Only PDF files are allowed''), w)
      else (case upload_try env filename background_tasks w of
              (Inl e, w') \<Rightarrow> (Inl (reraise ''Internal server error: '' e), w')
            | (Inr response, w') \<Rightarrow> (Inr response, w')))"

text \<open>
  Lines 292 to 299 of \<^verbatim>\<open>answer_question\<close>: the content is stripped, its words are
  counted, and an answer of more than 30 words is cut to its first 30.
\<close>

definition limit_words :: "string \<Rightarrow> string" where
  "limit_words content =
     (let answer = strip content;
          word_count = length (split answer)
      in if word_count < 20 \<or> word_count > 30
         then (if word_count > 30 then join_space (take 30 (split answer)) else answer)
         else answer)"

text \<open>
  \<^verbatim>\<open>answer_question\<close>. The identifier is built first; \<^verbatim>\<open>find_one\<close> returns the document
  with that \<^verbatim>\<open>_id\<close> or \<^verbatim>\<open>None\<close>; \<^verbatim>\<open>None.strip()\<close> is an \<^verbatim>\<open>AttributeError\<close>.
\<close>

definition answer_try :: "env \<Rightarrow> string \<Rightarrow> string \<Rightarrow> world \<Rightarrow> (exn + string) \<times> world" where
  "answer_try env mongo_id question w =
     (case ObjectId env mongo_id of
        Inl msg \<Rightarrow> (Inl (PyExc msg), w)
      | Inr oid \<Rightarrow>
          (let w1 = emit (EvFindOne oid) w
           in (case find_one_raises env oid of
                 Some msg \<Rightarrow> (Inl (PyExc msg), w1)
               | None \<Rightarrow>
                   (case map_of (db w1) oid of
                      None \<Rightarrow> (Inl (HTTPException 404 ''Document not found''), w1)
                    | Some document \<Rightarrow>
                        (let p = AnswerPrompt (d_summary document) (d_extracted_text document)
                                   question;
                             w2 = emit (EvChatCompletion p) w1
                         in (case chat_completions env p of
                               Inl msg \<Rightarrow> (Inl (PyExc msg), w2)
                             | Inr None \<Rightarrow>
                                 (Inl (PyExc (no_attribute JNull ''strip'')), w2)
                             | Inr (Some content) \<Rightarrow> (Inr (limit_words content), w2)))))))"

definition answer_question ::
  "env \<Rightarrow> string \<Rightarrow> string \<Rightarrow> world \<Rightarrow> (exn + string) \<times> world" where
  "answer_question env mongo_id question w =
     (case answer_try env mongo_id question w of
        (Inl e, w') \<Rightarrow> (Inl (reraise ''Failed to answer question: '' e), w')
      | (Inr a, w') \<Rightarrow> (Inr a, w'))"

text \<open>\<^verbatim>\<open>POST /chat\<close>.\<close>

definition chat :: "env \<Rightarrow> string \<Rightarrow> string \<Rightarrow> world \<Rightarrow> (exn + ChatResponse) \<times> world" where
  "chat env mongo_id question w =
     (case answer_question env mongo_id question w of
        (Inl e, w') \<Rightarrow> (Inl (reraise ''Internal server error: '' e), w')
      | (Inr a, w') \<Rightarrow> (Inr \<lparr>answer = a\<rparr>, w'))"

text \<open>
  \<^verbatim>\<open>GET /all\<close>. The query parameters default to 1 and 5 when absent; lines 397 to 402
  then adjust them.
\<close>

definition effective_page :: "int \<Rightarrow> int" where
  "effective_page page = (if page < 1 then 1 else page)"

definition effective_limit :: "int \<Rightarrow> int" where
  "effective_limit limit =
     (let limit = (if limit < 1 then 5 else limit)
      in if limit > 50 then 50 else limit)"

definition query_page :: "int option \<Rightarrow> int" where
  "query_page q = (case q of None \<Rightarrow> 1 | Some page \<Rightarrow> page)"

definition query_limit :: "int option \<Rightarrow> int" where
  "query_limit q = (case q of None \<Rightarrow> 5 | Some limit \<Rightarrow> limit)"

text \<open>
  The cursor \<^verbatim>\<open>find().sort("timestamp", -1).skip(skip).limit(limit)\<close>: newest first,
  \<open>skip\<close> documents dropped, at most \<open>limit\<close> taken. Records of equal timestamp, whose
  order the database leaves open, stay in insertion order here.
\<close>

definition find_sorted ::
  "(object_id \<times> document) list \<Rightarrow> int \<Rightarrow> int \<Rightarrow> (object_id \<times> document) list" where
  "find_sorted coll skip limit =
     take (nat limit) (drop (nat skip) (sort_key (\<lambda>(i, d). - d_timestamp d) coll))"

definition get_all_documents ::
  "env \<Rightarrow> int option \<Rightarrow> int option \<Rightarrow> world \<Rightarrow> (exn + listing) \<times> world" where
  "get_all_documents env page_param limit_param w =
     (let page = effective_page (query_page page_param);
          limit = effective_limit (query_limit limit_param);
          w1 = emit EvCountDocuments w
      in (case count_documents_raises env of
            Some msg \<Rightarrow>
              (Inl (HTTPException 500 (''Failed to fetch documents: '' @ str_exn (PyExc msg))),
               w1)
          | None \<Rightarrow>
              (let total = int (length (db w1));
                   skip = (page - 1) * limit;
                   w2 = emit (EvFind skip limit) w1
               in (case find_raises env skip limit of
                     Some msg \<Rightarrow>
                       (Inl (HTTPException 500
                               (''Failed to fetch documents: '' @ str_exn (PyExc msg))),
                        w2)
                   | None \<Rightarrow>
                       (let docs = find_sorted (db w2) skip limit;
                            total_pages = (if limit \<noteq> 0 then (total + limit - 1) div limit else 1)
                        in (Inr \<lparr>l_data = docs,
                                 l_page = page,
                                 l_limit = limit,
                                 l_total = total,
                                 l_total_pages = total_pages,
                                 l_has_next = (page < total_pages),
                                 l_has_prev = (page > 1)\<rparr>,
                            w2))))))"

section \<open>What the handlers did, read off the log\<close>

fun is_insert :: "event \<Rightarrow> bool" where
  "is_insert (EvInsertOne d) = True"
| "is_insert _ = False"

fun is_completion :: "event \<Rightarrow> bool" where
  "is_completion (EvChatCompletion p) = True"
| "is_completion _ = False"

fun is_lookup :: "event \<Rightarrow> bool" where
  "is_lookup (EvFindOne i) = True"
| "is_lookup _ = False"

definition insert_calls :: "world \<Rightarrow> event list" where
  "insert_calls w = filter is_insert (log w)"

definition completion_calls :: "world \<Rightarrow> event list" where
  "completion_calls w = filter is_completion (log w)"

definition lookup_calls :: "world \<Rightarrow> event list" where
  "lookup_calls w = filter is_lookup (log w)"

section \<open>The properties in the words of the specification\<close>

text \<open>
  A file name that ends in \<^verbatim>\<open>.pdf\<close> whatever the case of its letters: the last four
  characters are a dot, then p, d and f, each in either case.
\<close>

definition ends_with_pdf_any_case :: "string \<Rightarrow> bool" where
  "ends_with_pdf_any_case filename =
     (case rev filename of
        f # d # p # dot # _ \<Rightarrow>
          dot = CHR ''.'' \<and> (p = CHR ''p'' \<or> p = CHR ''P'')
            \<and> (d = CHR ''d'' \<or> d = CHR ''D'') \<and> (f = CHR ''f'' \<or> f = CHR ''F'')
      | _ \<Rightarrow> False)"

text \<open>The clamp of a page size into the interval from 1 to 50.\<close>

definition clamp_1_50 :: "int \<Rightarrow> int" where
  "clamp_1_50 limit = max 1 (min 50 limit)"

text \<open>
  The notification a department gives rise to: none unless it is a dict with a name and
  an email that Python takes for true (not null, not the empty string, not zero, not
  false, not an empty list or dict).
\<close>

definition notification :: "env \<Rightarrow> string \<Rightarrow> string \<Rightarrow> json \<Rightarrow> email_entry option" where
  "notification env summary filename dept =
     (case dept of
        JObj d \<Rightarrow>
          (case (map_of d ''name'', map_of d ''email'') of
             (Some name, Some email) \<Rightarrow>
               if truthy email
               then Some \<lparr>e_department = name,
                          e_summary = summary,
                          e_subject = ''Notice Summary for '' @ format_value env name
                                        @ '': '' @ filename,
                          e_to = email\<rparr>
               else None
           | _ \<Rightarrow> None)
      | _ \<Rightarrow> None)"

text \<open>
  When the summarization adapter fails, as the specification lists it: the response is
  not parseable JSON, or the parsed object lacks \<^verbatim>\<open>summary\<close> or \<^verbatim>\<open>departments\<close>, or the
  summary is not a string, or some element of the departments is not an object with both
  \<^verbatim>\<open>name\<close> and \<^verbatim>\<open>email\<close>. A value that is no list has no elements.
\<close>

fun lacks_key :: "string \<Rightarrow> json \<Rightarrow> bool" where
  "lacks_key k (JObj d) = (map_of d k = None)"
| "lacks_key k _ = True"

fun item :: "string \<Rightarrow> json \<Rightarrow> json option" where
  "item k (JObj d) = map_of d k"
| "item k _ = None"

fun elements :: "json \<Rightarrow> json list" where
  "elements (JArr xs) = xs"
| "elements _ = []"

fun is_list :: "json \<Rightarrow> bool" where
  "is_list (JArr xs) = True"
| "is_list _ = False"

definition parsed :: "env \<Rightarrow> string option \<Rightarrow> json option" where
  "parsed env result = (case result of None \<Rightarrow> None | Some raw \<Rightarrow> json_loads env raw)"

definition listed_failure :: "env \<Rightarrow> string option \<Rightarrow> bool" where
  "listed_failure env result =
     (case parsed env result of
        None \<Rightarrow> True
      | Some v \<Rightarrow>
          lacks_key ''summary'' v \<or> lacks_key ''departments'' v
          \<or> (case item ''summary'' v of Some s \<Rightarrow> \<not> isinstance_str s | None \<Rightarrow> True)
          \<or> (case item ''departments'' v of
                Some ds \<Rightarrow> list_ex (\<lambda>d. \<not> department_ok d) (elements ds)
              | None \<Rightarrow> True))"

text \<open>The same list with one more case: the departments are not a list.\<close>

definition adapter_failure :: "env \<Rightarrow> string option \<Rightarrow> bool" where
  "adapter_failure env result =
     (listed_failure env result
      \<or> (case parsed env result of
            None \<Rightarrow> True
          | Some v \<Rightarrow> (case item ''departments'' v of Some ds \<Rightarrow> \<not> is_list ds | None \<Rightarrow> True)))"

text \<open>
  An identifier that is syntactically a database ObjectId: 24 hexadecimal characters.
\<close>

definition is_hex_digit :: "char \<Rightarrow> bool" where
  "is_hex_digit c = (c \<in> set ''0123456789abcdefABCDEF'')"

definition twenty_four_hex :: "string \<Rightarrow> bool" where
  "twenty_four_hex s = (length s = 24 \<and> list_all is_hex_digit s)"

section \<open>A sample environment\<close>

text \<open>
  Concrete libraries for the examples. \<open>sample_loads\<close> parses the three responses the
  examples use and rejects every other text.

  \<open>ObjectId_bson\<close> is the constructor of \<^verbatim>\<open>bson.ObjectId\<close> on a string: the string must
  have 24 characters and \<^verbatim>\<open>bytes.fromhex\<close> must accept it; the identifier is then the
  bytes read, and its \<^verbatim>\<open>str\<close> their lower-case hexadecimal text. \<^verbatim>\<open>bytes.fromhex\<close> reads
  pairs of hexadecimal digits and skips ASCII whitespace before a pair, so it accepts
  a string of 24 characters that has blanks among them, and then yields fewer than twelve
  bytes. \<open>invalid_id\<close> is the text of \<^verbatim>\<open>InvalidId\<close> (for a string without quotes or
  escapes).
\<close>

definition ascii_space :: "char \<Rightarrow> bool" where
  "ascii_space c = (of_char c \<in> {9, 10, 11, 12, 13, 32 :: nat})"

definition hex_value :: "char \<Rightarrow> nat option" where
  "hex_value c =
     (let n = (of_char c :: nat)
      in if 48 \<le> n \<and> n \<le> 57 then Some (n - 48)
         else if 97 \<le> n \<and> n \<le> 102 then Some (n - 87)
         else if 65 \<le> n \<and> n \<le> 70 then Some (n - 55)
         else None)"

fun fromhex :: "string \<Rightarrow> nat list option" where
  "fromhex [] = Some []"
| "fromhex [c] = (if ascii_space c then Some [] else None)"
| "fromhex (c # d # cs) =
     (if ascii_space c then fromhex (d # cs)
      else (case (hex_value c, hex_value d) of
              (Some hi, Some lo) \<Rightarrow> map_option ((#) (16 * hi + lo)) (fromhex cs)
            | _ \<Rightarrow> None))"

definition hex_digit :: "nat \<Rightarrow> char" where
  "hex_digit k = (if k < 10 then char_of (48 + k) else char_of (87 + k))"

definition hexlify :: "nat list \<Rightarrow> string" where
  "hexlify bs = concat (map (\<lambda>b. [hex_digit (b div 16), hex_digit (b mod 16)]) bs)"

definition invalid_id :: "string \<Rightarrow> string" where
  "invalid_id s =
     quoted s @ '' is not a valid ObjectId, it must be a 12-byte input''
       @ '' or a 24-character hex string''"

definition ObjectId_bson :: "string \<Rightarrow> string + object_id" where
  "ObjectId_bson s =
     (if length s = 24
      then (case fromhex s of
              Some bs \<Rightarrow> Inr (hexlify bs)
            | None \<Rightarrow> Inl (invalid_id s))
      else Inl (invalid_id s))"

definition response_hr :: string where
  \<open>response_hr =
     ''{"summary": "- Offices close on Friday", "departments": [{"name": "HR", "email": "hr@example.org"}]}''\<close>

definition response_null_email :: string where
  \<open>response_null_email =
     ''{"summary": "- Offices close on Friday", "departments": [{"name": "HR", "email": null}]}''\<close>

definition response_null_departments :: string where
  \<open>response_null_departments =
     ''{"summary": "- Offices close on Friday", "departments": null}''\<close>

definition sample_loads :: "string \<Rightarrow> json option" where
  "sample_loads raw =
     (if raw = response_hr then
        Some (JObj [(''summary'', JStr ''- Offices close on Friday''),
                    (''departments'',
                     JArr [JObj [(''name'', JStr ''HR''), (''email'', JStr ''hr@example.org'')]])])
      else if raw = response_null_email then
        Some (JObj [(''summary'', JStr ''- Offices close on Friday''),
                    (''departments'', JArr [JObj [(''name'', JStr ''HR''), (''email'', JNull)]])])
      else if raw = response_null_departments then
        Some (JObj [(''summary'', JStr ''- Offices close on Friday''), (''departments'', JNull)])
      else None)"

definition sample_completion :: "string \<Rightarrow> prompt \<Rightarrow> string + string option" where
  "sample_completion summary_response p =
     (case p of
        SummarizePrompt t \<Rightarrow> Inr (Some summary_response)
      | AnswerPrompt s t q \<Rightarrow> Inr (Some ''The offices close on Friday.''))"

definition sample_env :: env where
  "sample_env =
     \<lparr>ObjectId = ObjectId_bson,
      file_read = Inr ''%PDF-1.4 notice'',
      process_document = (\<lambda>content. Inr ''Notice: offices close on Friday. HR: hr@example.org''),
      chat_completions = sample_completion response_hr,
      json_loads = sample_loads,
      py_str = (\<lambda>v. ''None''),
      utcnow = 1700000000,
      insert_one = (\<lambda>coll d. Inr ''65f0c0ffee0123456789abcd''),
      find_one_raises = (\<lambda>i. None),
      count_documents_raises = None,
      find_raises = (\<lambda>skip limit. None),
      coerce_numbers_to_str = False,
      validation_error = (\<lambda>ds. ''1 validation error for SummaryResponse'')\<rparr>"

definition sample_document :: "int \<Rightarrow> document" where
  "sample_document t =
     \<lparr>d_filename = ''notice.pdf'',
      d_extracted_text = ''Notice: offices close on Friday.'',
      d_summary = ''- Offices close on Friday'',
      d_departments = [],
      d_timestamp = t,
      d_email_data = []\<rparr>"

definition empty_world :: world where
  "empty_world = \<lparr>db = [], log = []\<rparr>"

definition one_record_world :: world where
  "one_record_world =
     \<lparr>db = [(''65f0c0ffee0123456789abcd'', sample_document 1700000000)], log = []\<rparr>"

definition twelve_records_world :: world where
  "twelve_records_world =
     \<lparr>db = map (\<lambda>k. (''65f0c0ffee0123456789ab0'' @ [char_of (97 + k)], sample_document (int k)))
            [0 ..< 12],
      log = []\<rparr>"

definition forty_five_words :: string where
  "forty_five_words = concat (replicate 44 ''word '') @ ''last''"

text \<open>A completion service that answers every prompt with the 45 words.\<close>

definition wordy_env :: env where
  "wordy_env = sample_env\<lparr>chat_completions := (\<lambda>p. Inr (Some forty_five_words))\<rparr>"

text \<open>
  Four more services: a document service that finds no text, a completion service that
  is down, one that answers with null departments, one that answers with a null email.
\<close>

definition no_text_env :: env where
  "no_text_env = sample_env\<lparr>process_document := (\<lambda>content. Inr [])\<rparr>"

definition outage_env :: env where
  "outage_env = sample_env\<lparr>chat_completions := (\<lambda>p. Inl ''Connection error.'')\<rparr>"

definition null_departments_env :: env where
  "null_departments_env =
     sample_env\<lparr>chat_completions := sample_completion response_null_departments\<rparr>"

definition null_email_env :: env where
  "null_email_env = sample_env\<lparr>chat_completions := sample_completion response_null_email\<rparr>"

text \<open>Three departments: one with an address, one with a null email, one with an empty one.\<close>

definition three_departments :: "json list" where
  "three_departments =
     [JObj [(''name'', JStr ''HR''), (''email'', JStr ''hr@example.org'')],
      JObj [(''name'', JStr ''Legal''), (''email'', JNull)],
      JObj [(''name'', JStr ''IT''), (''email'', JStr [])]]"

section \<open>The listing handler\<close>

lemma div_round_up_one: "(r + l - 1) div l = 1" if "0 < r" "r < l" for r l :: int
proof -
  have "(r + l - 1) div l = ((r - 1) + l) div l" by (simp add: algebra_simps)
  also have "\<dots> = (r - 1) div l + 1" using that by (simp add: div_add_self2)
  also have "(r - 1) div l = 0" using that by (simp add: div_pos_pos_trivial)
  finally show ?thesis by simp
qed

lemma div_round_up_neg: "(t + l - 1) div l = - (- t div l)" if "l > 0" for t l :: int
proof -
  have "(t + l - 1) div l = (l * (t div l) + (t mod l + l - 1)) div l"
    by (simp add: algebra_simps)
  also have "\<dots> = t div l + (t mod l + l - 1) div l" using that by simp
  finally have b: "(t + l - 1) div l = t div l + (t mod l + l - 1) div l" .
  show ?thesis
  proof (cases "t mod l = 0")
    case True
    then show ?thesis using that b by (simp add: zdiv_zminus1_eq_if div_pos_pos_trivial)
  next
    case False
    have "0 \<le> t mod l" "t mod l < l" using that by simp_all
    then have "(t mod l + l - 1) div l = 1" using False by (intro div_round_up_one) auto
    then show ?thesis using that b False by (simp add: zdiv_zminus1_eq_if)
  qed
qed

lemma div_round_up_ceiling:
  "(t + l - 1) div l = \<lceil>real_of_int t / real_of_int l\<rceil>" if "l > 0" for t l :: int
  using div_round_up_neg [OF that] by (simp add: ceiling_divide_eq_div)

lemma effective_limit_range: "1 \<le> effective_limit l \<and> effective_limit l \<le> 50"
  by (simp add: effective_limit_def Let_def)

lemma get_all_documents_ok:
  assumes "count_documents_raises env = None"
    and "find_raises env ((effective_page (query_page p) - 1) * effective_limit (query_limit l))
           (effective_limit (query_limit l)) = None"
  shows "get_all_documents env p l w =
     (Inr \<lparr>l_data = find_sorted (db w)
                      ((effective_page (query_page p) - 1) * effective_limit (query_limit l))
                      (effective_limit (query_limit l)),
           l_page = effective_page (query_page p),
           l_limit = effective_limit (query_limit l),
           l_total = int (length (db w)),
           l_total_pages = (int (length (db w)) + effective_limit (query_limit l) - 1)
                             div effective_limit (query_limit l),
           l_has_next = (effective_page (query_page p)
                           < (int (length (db w)) + effective_limit (query_limit l) - 1)
                               div effective_limit (query_limit l)),
           l_has_prev = (effective_page (query_page p) > 1)\<rparr>,
      emit (EvFind ((effective_page (query_page p) - 1) * effective_limit (query_limit l))
              (effective_limit (query_limit l)))
        (emit EvCountDocuments w))"
proof -
  have "effective_limit (query_limit l) \<noteq> 0"
    using effective_limit_range [of "query_limit l"] by linarith
  then show ?thesis using assms by (simp add: get_all_documents_def Let_def emit_def)
qed

text \<open>
  C6, as the code has it. When the driver raises nothing, the listing reports the page
  \<open>max page 1\<close> and a limit that is 5 for a requested limit below 1 and \<open>min limit 50\<close>
  otherwise: the limit lies between 1 and 50, and it is the clamp of the requested limit
  for every requested limit of at least 1. An absent page is 1, an absent limit is 5.
\<close>

theorem listing_page_and_limit:
  assumes "count_documents_raises env = None"
    and "find_raises env ((effective_page (query_page page_param) - 1)
                            * effective_limit (query_limit limit_param))
           (effective_limit (query_limit limit_param)) = None"
  shows "\<exists>r. fst (get_all_documents env page_param limit_param w) = Inr r
       \<and> l_page r = max (query_page page_param) 1
       \<and> l_limit r = (if query_limit limit_param < 1 then 5
                       else min (query_limit limit_param) 50)
       \<and> 1 \<le> l_limit r \<and> l_limit r \<le> 50
       \<and> (1 \<le> query_limit limit_param \<longrightarrow> l_limit r = clamp_1_50 (query_limit limit_param))
       \<and> query_page None = 1 \<and> query_limit None = 5"
  unfolding get_all_documents_ok [OF assms]
  by (simp add: effective_page_def effective_limit_def query_page_def query_limit_def
      clamp_1_50_def Let_def)

theorem listing_page_and_limit_witness:
  "count_documents_raises sample_env = None
   \<and> find_raises sample_env ((effective_page (query_page (Some (- 3))) - 1)
                               * effective_limit (query_limit (Some 70)))
        (effective_limit (query_limit (Some 70))) = None
   \<and> (\<exists>r. fst (get_all_documents sample_env (Some (- 3)) (Some 70) twelve_records_world) = Inr r
          \<and> l_page r = 1 \<and> l_limit r = 50 \<and> clamp_1_50 70 = 50)"
proof -
  have a: "count_documents_raises sample_env = None" by (simp add: sample_env_def)
  have b: "find_raises sample_env ((effective_page (query_page (Some (- 3))) - 1)
                               * effective_limit (query_limit (Some 70)))
        (effective_limit (query_limit (Some 70))) = None" by (simp add: sample_env_def)
  show ?thesis
    using a b listing_page_and_limit [OF a b, of twelve_records_world]
    by (auto simp add: query_page_def query_limit_def clamp_1_50_def)
qed

text \<open>
  C6, as the specification words it, fails at the limit 0: the clamp into the interval
  from 1 to 50 is 1, the handler answers with the limit 5.
\<close>

theorem limit_zero_gives_five_not_one:
  "clamp_1_50 0 = 1 \<and> effective_limit (query_limit (Some 0)) = 5
   \<and> map_sum id l_limit (fst (get_all_documents sample_env (Some 1) (Some 0) empty_world)) = Inr 5"
  by (simp add: get_all_documents_def Let_def emit_def effective_page_def effective_limit_def
      query_page_def query_limit_def sample_env_def empty_world_def clamp_1_50_def)

text \<open>
  C7. When the driver raises nothing, the listing of a collection of \<open>total\<close> records at
  the effective page and limit has \<open>total_pages\<close> the ceiling of \<open>total / limit\<close>,
  \<open>has_next\<close> exactly when the page is below \<open>total_pages\<close>, \<open>has_prev\<close> exactly when the
  page is above 1, and as data the records from position \<open>(page - 1) * limit\<close> of the
  collection, newest first, at most \<open>limit\<close> of them. The collection is left as it was.
\<close>

theorem listing_pagination:
  assumes "count_documents_raises env = None"
    and "find_raises env ((page - 1) * limit) limit = None"
    and "page = effective_page (query_page page_param)"
    and "limit = effective_limit (query_limit limit_param)"
    and "n_total = int (length (db w))"
  shows "\<exists>r. fst (get_all_documents env page_param limit_param w) = Inr r
       \<and> l_total r = n_total
       \<and> l_total_pages r = \<lceil>real_of_int n_total / real_of_int limit\<rceil>
       \<and> l_has_next r = (page < l_total_pages r)
       \<and> l_has_prev r = (1 < page)
       \<and> l_data r = take (nat limit) (drop (nat ((page - 1) * limit))
                       (sort_key (\<lambda>(i, d). - d_timestamp d) (db w)))
       \<and> length (l_data r) \<le> nat limit
       \<and> db (snd (get_all_documents env page_param limit_param w)) = db w"
proof -
  have pos: "0 < limit"
    using effective_limit_range [of "query_limit limit_param"] assms(4) by linarith
  have ok: "find_raises env ((effective_page (query_page page_param) - 1)
                               * effective_limit (query_limit limit_param))
              (effective_limit (query_limit limit_param)) = None"
    using assms(2,3,4) by simp
  show ?thesis
    unfolding get_all_documents_ok [OF assms(1) ok]
    using assms(3,4,5) div_round_up_ceiling [OF pos, of n_total]
    by (simp add: find_sorted_def emit_def)
qed

text \<open>Twelve records, page 2, limit 5: five records, three pages, a next and a previous page.\<close>

theorem listing_pagination_twelve_records:
  "count_documents_raises sample_env = None
   \<and> find_raises sample_env ((2 - 1) * 5) 5 = None
   \<and> 2 = effective_page (query_page (Some 2))
   \<and> 5 = effective_limit (query_limit (Some 5))
   \<and> 12 = int (length (db twelve_records_world))
   \<and> (\<exists>r. fst (get_all_documents sample_env (Some 2) (Some 5) twelve_records_world) = Inr r
          \<and> length (l_data r) = 5 \<and> l_total_pages r = 3 \<and> l_has_next r \<and> l_has_prev r)"
proof -
  have a: "count_documents_raises sample_env = None" by (simp add: sample_env_def)
  have b: "find_raises sample_env ((2 - 1) * 5) 5 = None" by (simp add: sample_env_def)
  have c: "2 = effective_page (query_page (Some 2))"
    by (simp add: effective_page_def query_page_def)
  have d: "5 = effective_limit (query_limit (Some 5))"
    by (simp add: effective_limit_def query_limit_def)
  have e: "12 = int (length (db twelve_records_world))"
    by (simp add: twelve_records_world_def)
  have f: "length (db twelve_records_world) = 12"
    by (simp add: twelve_records_world_def)
  show ?thesis
    using a b c d e listing_pagination [OF a b c d e] f
    by auto
qed

section \<open>The chat handler: the length of the answer\<close>

lemma split_from_word:
  "\<forall>c \<in> set v. \<not> isspace c \<Longrightarrow> split_from cur (v @ s) = split_from (cur @ v) s"
  by (induction v arbitrary: cur) auto

lemma split_from_spaces:
  "\<forall>c \<in> set t. isspace c \<Longrightarrow> split_from cur t = (if cur = [] then [] else [cur])"
  by (induction t arbitrary: cur) auto

lemma split_from_trailing:
  "\<forall>c \<in> set t. isspace c \<Longrightarrow> split_from cur (s @ t) = split_from cur s"
  by (induction s arbitrary: cur) (auto simp add: split_from_spaces)

lemma split_from_leading: "split_from [] (dropWhile isspace s) = split_from [] s"
  by (induction s) auto

lemma split_strip: "split (strip s) = split s"
proof -
  let ?u = "dropWhile isspace s"
  have "?u = rev (dropWhile isspace (rev ?u)) @ rev (takeWhile isspace (rev ?u))"
    by (metis rev_append rev_rev_ident takeWhile_dropWhile_id)
  moreover have "\<forall>c \<in> set (rev (takeWhile isspace (rev ?u))). isspace c"
    by (auto dest: set_takeWhileD)
  ultimately have "split_from [] ?u = split_from [] (rev (dropWhile isspace (rev ?u)))"
    using split_from_trailing by metis
  then show ?thesis
    by (simp add: split_def strip_def split_from_leading)
qed

lemma split_from_words:
  "w \<in> set (split_from cur s) \<Longrightarrow> \<forall>c \<in> set cur. \<not> isspace c
     \<Longrightarrow> w \<noteq> [] \<and> (\<forall>c \<in> set w. \<not> isspace c)"
proof (induction s arbitrary: cur)
  case Nil
  then show ?case by (cases "cur = []") simp_all
next
  case (Cons c cs)
  show ?case
  proof (cases "isspace c")
    case True
    show ?thesis
    proof (cases "cur = []")
      case True
      with \<open>isspace c\<close> Cons.prems(1) have "w \<in> set (split_from [] cs)" by simp
      then show ?thesis by (rule Cons.IH) simp
    next
      case False
      with \<open>isspace c\<close> Cons.prems(1) have "w = cur \<or> w \<in> set (split_from [] cs)" by simp
      then show ?thesis
      proof
        assume "w = cur"
        with False Cons.prems(2) show ?thesis by simp
      next
        assume "w \<in> set (split_from [] cs)"
        then show ?thesis by (rule Cons.IH) simp
      qed
    qed
  next
    case False
    with Cons.prems(1) have a: "w \<in> set (split_from (cur @ [c]) cs)" by simp
    have b: "\<forall>d \<in> set (cur @ [c]). \<not> isspace d" using False Cons.prems(2) by simp
    show ?thesis by (rule Cons.IH [OF a b])
  qed
qed

lemma split_words: "w \<in> set (split s) \<Longrightarrow> w \<noteq> [] \<and> (\<forall>c \<in> set w. \<not> isspace c)"
  using split_from_words [of w "[]" s] by (simp add: split_def)

lemma isspace_blank: "isspace CHR '' ''"
  by (simp add: isspace_def)

lemma split_join_space:
  "\<forall>w \<in> set ws. w \<noteq> [] \<and> (\<forall>c \<in> set w. \<not> isspace c) \<Longrightarrow> split (join_space ws) = ws"
proof (induction ws rule: join_space.induct)
  case 1
  then show ?case by (simp add: split_def)
next
  case (2 w)
  then show ?case using split_from_word [of w "[]" "[]"] by (simp add: split_def)
next
  case (3 w v ws)
  then have "split (join_space (v # ws)) = v # ws" by simp
  moreover have "split_from [] (w @ CHR '' '' # join_space (v # ws))
                   = split_from w (CHR '' '' # join_space (v # ws))"
    using 3 split_from_word [of w "[]"] by simp
  ultimately show ?case using 3 by (simp add: split_def isspace_blank)
qed

lemma split_join_take: "split (join_space (take n (split s))) = take n (split s)"
  by (rule split_join_space) (auto dest: in_set_takeD split_words)

lemma limit_words_cases:
  "limit_words content =
     (if 30 < length (split content) then join_space (take 30 (split content))
      else strip content)"
  by (simp add: limit_words_def Let_def split_strip)

lemma chat_ok:
  assumes "ObjectId env mongo_id = Inr oid"
    and "find_one_raises env oid = None"
    and "map_of (db w) oid = Some document"
    and "chat_completions env
           (AnswerPrompt (d_summary document) (d_extracted_text document) question)
         = Inr (Some content)"
  shows "chat env mongo_id question w =
     (Inr \<lparr>answer = limit_words content\<rparr>,
      emit (EvChatCompletion
              (AnswerPrompt (d_summary document) (d_extracted_text document) question))
        (emit (EvFindOne oid) w))"
  using assms by (simp add: chat_def answer_question_def answer_try_def Let_def emit_def)

text \<open>
  C5. In a chat request that reaches the model and gets the content \<open>content\<close> back,
  the answer of line 292 is \<open>strip content\<close>; it has the words of the content. With
  more than 30 words the handler returns the first 30 joined by single blanks, and that
  text has exactly those 30 words; with fewer than 20 words (as with 20 to 30) the handler
  returns the answer as it is.
\<close>

theorem chat_answer_word_limit:
  assumes "ObjectId env mongo_id = Inr oid"
    and "find_one_raises env oid = None"
    and "map_of (db w) oid = Some document"
    and "chat_completions env
           (AnswerPrompt (d_summary document) (d_extracted_text document) question)
         = Inr (Some content)"
  shows "\<exists>a. fst (chat env mongo_id question w) = Inr \<lparr>answer = a\<rparr>
       \<and> split (strip content) = split content
       \<and> (30 < length (split (strip content)) \<longrightarrow>
            a = join_space (take 30 (split (strip content)))
            \<and> split a = take 30 (split (strip content)) \<and> length (split a) = 30)
       \<and> (length (split (strip content)) < 20 \<longrightarrow> a = strip content)
       \<and> (length (split (strip content)) \<le> 30 \<longrightarrow> a = strip content)"
  unfolding chat_ok [OF assms]
  by (simp add: limit_words_cases split_strip split_join_take)

text \<open>An answer of 45 words comes back as its first 30.\<close>

theorem chat_answer_forty_five_words:
  "ObjectId wordy_env ''65f0c0ffee0123456789abcd'' = Inr ''65f0c0ffee0123456789abcd''
   \<and> find_one_raises wordy_env ''65f0c0ffee0123456789abcd'' = None
   \<and> map_of (db one_record_world) ''65f0c0ffee0123456789abcd''
       = Some (sample_document 1700000000)
   \<and> chat_completions wordy_env
        (AnswerPrompt (d_summary (sample_document 1700000000))
           (d_extracted_text (sample_document 1700000000)) ''When do the offices close?'')
       = Inr (Some forty_five_words)
   \<and> length (split (strip forty_five_words)) = 45
   \<and> fst (chat wordy_env ''65f0c0ffee0123456789abcd'' ''When do the offices close?''
             one_record_world)
       = Inr \<lparr>answer = join_space (replicate 30 ''word'')\<rparr>"
proof -
  have a: "ObjectId wordy_env ''65f0c0ffee0123456789abcd'' = Inr ''65f0c0ffee0123456789abcd''"
    by code_simp
  have b: "find_one_raises wordy_env ''65f0c0ffee0123456789abcd'' = None"
    by (simp add: wordy_env_def sample_env_def)
  have c: "map_of (db one_record_world) ''65f0c0ffee0123456789abcd''
             = Some (sample_document 1700000000)"
    by (simp add: one_record_world_def)
  have d: "chat_completions wordy_env
        (AnswerPrompt (d_summary (sample_document 1700000000))
           (d_extracted_text (sample_document 1700000000)) ''When do the offices close?'')
       = Inr (Some forty_five_words)"
    by (simp add: wordy_env_def)
  have e: "split (strip forty_five_words) = replicate 44 ''word'' @ [''last'']"
    by code_simp
  have f: "take 30 (replicate 44 ''word'' @ [''last'']) = replicate 30 ''word''"
    by simp
  have g: "length (split (strip forty_five_words)) = 45"
    unfolding e by simp
  from chat_answer_word_limit [OF a b c d] obtain x
    where x: "fst (chat wordy_env ''65f0c0ffee0123456789abcd'' ''When do the offices close?''
                     one_record_world) = Inr \<lparr>answer = x\<rparr>"
      and y: "30 < length (split (strip forty_five_words)) \<longrightarrow>
                x = join_space (take 30 (split (strip forty_five_words)))"
    by blast
  from y g have "x = join_space (take 30 (split (strip forty_five_words)))" by simp
  then have "x = join_space (replicate 30 ''word'')" unfolding e f .
  with x a b c d g show ?thesis by blast
qed

section \<open>File names\<close>

lemma of_char_lower_char:
  "(of_char (lower_char c) :: nat) =
     (if (65 \<le> (of_char c :: nat) \<and> (of_char c :: nat) \<le> 90)
         \<or> (192 \<le> (of_char c :: nat) \<and> (of_char c :: nat) \<le> 222
              \<and> (of_char c :: nat) \<noteq> 215)
      then of_char c + 32 else of_char c)"
  by (simp add: lower_char_def Let_def)

lemma char_eq_code: "(c = d) = ((of_char c :: nat) = of_char d)"
  by simp

lemma lower_char_dot: "lower_char c = CHR ''.'' \<longleftrightarrow> c = CHR ''.''"
  unfolding char_eq_code [of _ "CHR ''.''"] of_char_lower_char by auto

lemma lower_char_p: "lower_char c = CHR ''p'' \<longleftrightarrow> c = CHR ''p'' \<or> c = CHR ''P''"
  unfolding char_eq_code [of _ "CHR ''p''"] char_eq_code [of _ "CHR ''P''"] of_char_lower_char
  by auto

lemma lower_char_d: "lower_char c = CHR ''d'' \<longleftrightarrow> c = CHR ''d'' \<or> c = CHR ''D''"
  unfolding char_eq_code [of _ "CHR ''d''"] char_eq_code [of _ "CHR ''D''"] of_char_lower_char
  by auto

lemma lower_char_f: "lower_char c = CHR ''f'' \<longleftrightarrow> c = CHR ''f'' \<or> c = CHR ''F''"
  unfolding char_eq_code [of _ "CHR ''f''"] char_eq_code [of _ "CHR ''F''"] of_char_lower_char
  by auto

lemma endswith_rev:
  "endswith s suffix
     = (take (length suffix) (rev s) = rev suffix \<and> length suffix \<le> length s)"
proof (cases "length suffix \<le> length s")
  case True
  have "rev (drop (length s - length suffix) s) = take (length suffix) (rev s)"
    using True by (simp add: rev_drop)
  then have "(drop (length s - length suffix) s = suffix)
               = (take (length suffix) (rev s) = rev suffix)"
    by (metis rev_rev_ident)
  then show ?thesis using True by (simp add: endswith_def)
next
  case False
  then show ?thesis by (simp add: endswith_def)
qed

lemma endswith_pdf_any_case:
  "endswith (lower filename) ''.pdf'' = ends_with_pdf_any_case filename"
  by (auto simp add: endswith_rev lower_def rev_map ends_with_pdf_any_case_def
      lower_char_dot lower_char_p lower_char_d lower_char_f split: list.splits)

section \<open>The upload handler\<close>

lemma db_emit: "db (emit ev w) = db w"
  by (simp add: emit_def)

lemma insert_calls_emit: "insert_calls (emit ev w) = insert_calls w @ filter is_insert [ev]"
  by (simp add: insert_calls_def emit_def)

lemma extract_snd: "snd (extract_text_from_pdf env c w) = emit (EvProcessDocument c) w"
  by (simp add: extract_text_from_pdf_def Let_def)

lemma extract_error:
  "fst (extract_text_from_pdf env c w) = Inl e \<Longrightarrow> \<exists>d. e = HTTPException 500 d"
  by (auto simp add: extract_text_from_pdf_def Let_def split: sum.splits if_splits)

lemma process_snd:
  "snd (process_with_gpt4o env t w) = emit (EvChatCompletion (SummarizePrompt t)) w"
  by (simp add: process_with_gpt4o_def Let_def)

lemma process_error:
  "fst (process_with_gpt4o env t w) = Inl e \<Longrightarrow> \<exists>d. e = HTTPException 500 d"
  by (auto simp add: process_with_gpt4o_def Let_def split: sum.splits)

lemma process_fst_world:
  "fst (process_with_gpt4o env t w) = fst (process_with_gpt4o env t w')"
  by (simp add: process_with_gpt4o_def Let_def)

lemma extract_fst_world:
  "fst (extract_text_from_pdf env c w) = fst (extract_text_from_pdf env c w')"
  by (simp add: extract_text_from_pdf_def Let_def)

lemma check_gpt4o_shape:
  "check_gpt4o_result env result = Inr (s, d) \<Longrightarrow> isinstance_str s \<and> departments_ok d"
  by (auto simp add: check_gpt4o_result_def split: option.splits json.splits if_splits)

lemma process_shape:
  "fst (process_with_gpt4o env t w) = Inr (s, d) \<Longrightarrow> isinstance_str s \<and> departments_ok d"
  by (auto simp add: process_with_gpt4o_def Let_def split: sum.splits dest: check_gpt4o_shape)

lemma isinstance_strE: "isinstance_str s \<Longrightarrow> \<exists>x. s = JStr x"
  by (cases s) simp_all

lemma departments_okE: "departments_ok d \<Longrightarrow> \<exists>ds. d = JArr ds \<and> list_all department_ok ds"
  by (cases d) simp_all

lemma prepare_email_data_error:
  "prepare_email_data env ds s f = Inl e \<Longrightarrow> \<exists>m. e = PyExc m"
  by (induction ds) (auto split: json.splits option.splits if_splits sum.splits)

lemma new_SummaryResponse_error:
  "new_SummaryResponse env f ds s i = Inl e \<Longrightarrow> \<exists>m. e = PyExc m"
  by (auto simp add: new_SummaryResponse_def split: option.splits)

lemma upload_store_error:
  "fst (upload_store env f bg t s ds w) = Inl e \<Longrightarrow> \<exists>m. e = PyExc m"
  by (auto simp add: upload_store_def Let_def split: sum.splits
      dest: prepare_email_data_error new_SummaryResponse_error)

lemma reraise_500:
  "(\<exists>d. e = HTTPException 500 d) \<or> (\<exists>m. e = PyExc m) \<Longrightarrow> \<exists>d. reraise p e = HTTPException 500 d"
  by auto

lemma upload_try_read_fails:
  "file_read env = Inl m \<Longrightarrow> upload_try env f bg w = (Inl (PyExc m), w)"
  by (simp add: upload_try_def)

lemma upload_try_extract_fails:
  assumes "file_read env = Inr c" and "fst (extract_text_from_pdf env c w) = Inl e"
  shows "upload_try env f bg w = (Inl e, emit (EvProcessDocument c) w)"
proof -
  obtain r w1 where x: "extract_text_from_pdf env c w = (r, w1)" by fastforce
  with assms(2) extract_snd [of env c w] have "r = Inl e" "w1 = emit (EvProcessDocument c) w"
    by simp_all
  with x assms(1) show ?thesis by (simp add: upload_try_def)
qed

lemma upload_try_process_fails:
  assumes "file_read env = Inr c" and "fst (extract_text_from_pdf env c w) = Inr t"
    and "fst (process_with_gpt4o env t w) = Inl e"
  shows "upload_try env f bg w =
           (Inl e, emit (EvChatCompletion (SummarizePrompt t)) (emit (EvProcessDocument c) w))"
proof -
  let ?w1 = "emit (EvProcessDocument c) w"
  let ?w2 = "emit (EvChatCompletion (SummarizePrompt t)) ?w1"
  have x: "extract_text_from_pdf env c w = (Inr t, ?w1)"
    using assms(2) extract_snd [of env c w] by (simp add: prod_eq_iff)
  have "fst (process_with_gpt4o env t ?w1) = Inl e"
    using assms(3) process_fst_world [of env t ?w1 w] by simp
  then have y: "process_with_gpt4o env t ?w1 = (Inl e, ?w2)"
    using process_snd [of env t ?w1] by (simp add: prod_eq_iff)
  show ?thesis using assms(1) x y by (simp add: upload_try_def)
qed

lemma upload_try_stores:
  assumes "file_read env = Inr c" and "fst (extract_text_from_pdf env c w) = Inr t"
    and "fst (process_with_gpt4o env t w) = Inr (JStr s, JArr ds)"
  shows "upload_try env f bg w =
           upload_store env f bg t s ds
             (emit (EvChatCompletion (SummarizePrompt t)) (emit (EvProcessDocument c) w))"
proof -
  let ?w1 = "emit (EvProcessDocument c) w"
  let ?w2 = "emit (EvChatCompletion (SummarizePrompt t)) ?w1"
  have x: "extract_text_from_pdf env c w = (Inr t, ?w1)"
    using assms(2) extract_snd [of env c w] by (simp add: prod_eq_iff)
  have "fst (process_with_gpt4o env t ?w1) = Inr (JStr s, JArr ds)"
    using assms(3) process_fst_world [of env t ?w1 w] by simp
  then have y: "process_with_gpt4o env t ?w1 = (Inr (JStr s, JArr ds), ?w2)"
    using process_snd [of env t ?w1] by (simp add: prod_eq_iff)
  have "list_all department_ok ds" using process_shape [OF assms(3)] by simp
  then show ?thesis using assms(1) x y by (simp add: upload_try_def)
qed

lemma upload_try_error:
  assumes "fst (upload_try env f bg w) = Inl e"
  shows "(\<exists>d. e = HTTPException 500 d) \<or> (\<exists>m. e = PyExc m)"
proof (cases "file_read env")
  case (Inl m)
  with assms show ?thesis by (auto simp add: upload_try_read_fails)
next
  case (Inr c)
  show ?thesis
  proof (cases "fst (extract_text_from_pdf env c w)")
    case (Inl e1)
    with assms Inr extract_error [OF Inl] show ?thesis
      by (simp add: upload_try_extract_fails)
  next
    case t: (Inr t)
    show ?thesis
    proof (cases "fst (process_with_gpt4o env t w)")
      case (Inl e2)
      with assms Inr t process_error [OF Inl] show ?thesis
        by (simp add: upload_try_process_fails)
    next
      case r: (Inr r)
      obtain s d where sd: "r = (s, d)" by fastforce
      with r process_shape [of env t w s d] have "isinstance_str s" "departments_ok d"
        by simp_all
      then obtain x ds where "s = JStr x" "d = JArr ds"
        using isinstance_strE [of s] departments_okE [of d] by blast
      with sd have "r = (JStr x, JArr ds)" by simp
      with assms Inr t r upload_store_error show ?thesis
        by (simp add: upload_try_stores)
    qed
  qed
qed

lemma upload_pdf_accepted:
  "ends_with_pdf_any_case f \<Longrightarrow>
     upload_pdf env f bg w =
       (case upload_try env f bg w of
          (Inl e, w') \<Rightarrow> (Inl (reraise ''Internal server error: '' e), w')
        | (Inr response, w') \<Rightarrow> (Inr response, w'))"
  by (simp add: upload_pdf_def endswith_pdf_any_case)

lemma upload_pdf_status:
  assumes "ends_with_pdf_any_case f"
  shows "http_status (fst (upload_pdf env f bg w)) = 200
       \<or> http_status (fst (upload_pdf env f bg w)) = 500"
proof -
  obtain r w' where x: "upload_try env f bg w = (r, w')" by fastforce
  show ?thesis
  proof (cases r)
    case (Inl e)
    with x upload_try_error [of env f bg w e]
    obtain d where "reraise ''Internal server error: '' e = HTTPException 500 d"
      by auto
    with x Inl assms show ?thesis by (simp add: upload_pdf_accepted)
  next
    case (Inr a)
    with x assms show ?thesis by (simp add: upload_pdf_accepted)
  qed
qed

text \<open>
  C2. A file name that does not end in \<^verbatim>\<open>.pdf\<close> (in any case of the letters) is
  answered with the 400 and leaves the world as it was: no call, no insert. A file name
  that does end so gets past the test: the answer is a 200 or a 500, never the 400.
  \<open>ends_with_pdf_any_case\<close> is the test of the code, \<open>endswith (lower filename)\<close>.
\<close>

theorem upload_rejects_other_than_pdf:
  "(\<not> ends_with_pdf_any_case filename \<longrightarrow>
      upload_pdf env filename bg w
        = (Inl (HTTPException 400 ''Only PDF files are allowed''), w))
   \<and> (ends_with_pdf_any_case filename \<longrightarrow>
        http_status (fst (upload_pdf env filename bg w)) \<noteq> 400)
   \<and> ends_with_pdf_any_case filename = endswith (lower filename) ''.pdf''"
  using upload_pdf_status [of filename env bg w]
  by (auto simp add: upload_pdf_def endswith_pdf_any_case)

theorem upload_rejects_other_than_pdf_witness:
  "\<not> ends_with_pdf_any_case ''notice.pdf.txt''
   \<and> upload_pdf sample_env ''notice.pdf.txt'' True empty_world
       = (Inl (HTTPException 400 ''Only PDF files are allowed''), empty_world)
   \<and> ends_with_pdf_any_case ''Notice.PdF''
   \<and> http_status (fst (upload_pdf sample_env ''Notice.PdF'' True empty_world)) \<noteq> 400"
proof -
  have a: "\<not> ends_with_pdf_any_case ''notice.pdf.txt''"
    by (simp add: ends_with_pdf_any_case_def)
  have b: "ends_with_pdf_any_case ''Notice.PdF''"
    by (simp add: ends_with_pdf_any_case_def)
  show ?thesis
    using a b upload_rejects_other_than_pdf [of "''notice.pdf.txt''" sample_env True empty_world]
      upload_rejects_other_than_pdf [of "''Notice.PdF''" sample_env True empty_world]
    by blast
qed

section \<open>The notification list\<close>

lemma prepare_email_data_valid:
  "list_all department_ok ds \<Longrightarrow>
     prepare_email_data env ds s f = Inr (List.map_filter (notification env s f) ds)"
proof (induction ds)
  case Nil
  then show ?case by (simp add: map_filter_simps)
next
  case (Cons d ds)
  then have ih: "prepare_email_data env ds s f = Inr (List.map_filter (notification env s f) ds)"
    by simp
  from Cons.prems obtain kv name email
    where d: "d = JObj kv" "map_of kv ''name'' = Some name" "map_of kv ''email'' = Some email"
    by (cases d) auto
  have "notification env s f d =
          (if truthy email
           then Some \<lparr>e_department = name, e_summary = s,
                      e_subject = ''Notice Summary for '' @ format_value env name @ '': '' @ f,
                      e_to = email\<rparr>
           else None)"
    using d by (simp add: notification_def)
  then show ?case
    using d ih by (simp add: map_filter_simps)
qed

lemma notification_of_department:
  assumes "department_ok d"
  shows "\<exists>kv name email. d = JObj kv \<and> map_of kv ''name'' = Some name
           \<and> map_of kv ''email'' = Some email
           \<and> notification env s f d =
               (if truthy email
                then Some \<lparr>e_department = name, e_summary = s,
                           e_subject = ''Notice Summary for '' @ format_value env name
                                         @ '': '' @ f,
                           e_to = email\<rparr>
                else None)"
proof -
  from assms obtain kv name email
    where d: "d = JObj kv" "map_of kv ''name'' = Some name" "map_of kv ''email'' = Some email"
    by (cases d) auto
  then show ?thesis by (simp add: notification_def)
qed

text \<open>
  C3, as the code has it. For departments that passed the shape test, the notification
  list has, in the order of the departments, one entry for each department whose email
  Python takes for true, and none for a department whose email is null or the empty
  string; the entry carries the name, the summary as body, the subject
  \<^verbatim>\<open>Notice Summary for {name}: {filename}\<close> and the email as recipient.
\<close>

theorem notification_list_of_departments:
  assumes "list_all department_ok departments"
  shows "prepare_email_data env departments summary filename
           = Inr (List.map_filter (notification env summary filename) departments)
       \<and> list_all (\<lambda>d. \<exists>kv name email. d = JObj kv \<and> map_of kv ''name'' = Some name
              \<and> map_of kv ''email'' = Some email
              \<and> notification env summary filename d =
                  (if truthy email
                   then Some \<lparr>e_department = name, e_summary = summary,
                              e_subject = ''Notice Summary for '' @ format_value env name
                                            @ '': '' @ filename,
                              e_to = email\<rparr>
                   else None)) departments
       \<and> \<not> truthy JNull \<and> \<not> truthy (JStr [])
       \<and> truthy (JStr (c # cs)) \<and> format_value env (JStr name) = name"
proof -
  have a: "list_all (\<lambda>d. \<exists>kv name email. d = JObj kv \<and> map_of kv ''name'' = Some name
              \<and> map_of kv ''email'' = Some email
              \<and> notification env summary filename d =
                  (if truthy email
                   then Some \<lparr>e_department = name, e_summary = summary,
                              e_subject = ''Notice Summary for '' @ format_value env name
                                            @ '': '' @ filename,
                              e_to = email\<rparr>
                   else None)) departments"
    unfolding list_all_iff
  proof (rule ballI)
    fix d
    assume "d \<in> set departments"
    with assms have "department_ok d" by (simp add: list_all_iff)
    then show "\<exists>kv name email. d = JObj kv \<and> map_of kv ''name'' = Some name
              \<and> map_of kv ''email'' = Some email
              \<and> notification env summary filename d =
                  (if truthy email
                   then Some \<lparr>e_department = name, e_summary = summary,
                              e_subject = ''Notice Summary for '' @ format_value env name
                                            @ '': '' @ filename,
                              e_to = email\<rparr>
                   else None)"
      by (rule notification_of_department)
  qed
  have b: "format_value env (JStr name) = name"
    by (simp add: format_value_def)
  have c: "\<not> truthy JNull" "\<not> truthy (JStr [])" "truthy (JStr (c # cs))"
    by simp_all
  from prepare_email_data_valid [OF assms, of env summary filename] a b c
  show ?thesis by blast
qed

theorem notification_list_of_three_departments:
  "list_all department_ok three_departments
   \<and> prepare_email_data sample_env three_departments ''- Offices close on Friday'' ''notice.pdf''
       = Inr [\<lparr>e_department = JStr ''HR'', e_summary = ''- Offices close on Friday'',
                e_subject = ''Notice Summary for HR: notice.pdf'',
                e_to = JStr ''hr@example.org''\<rparr>]"
proof -
  have a: "list_all department_ok three_departments"
    by (simp add: three_departments_def)
  show ?thesis
    using a notification_list_of_departments [OF a, of sample_env
        "''- Offices close on Friday''" "''notice.pdf''"]
    by (simp add: three_departments_def map_filter_simps notification_def format_value_def)
qed

text \<open>
  C3, as the specification words it, fails for an email that is the empty string: it is
  not null, and the department gets no entry.
\<close>

theorem empty_email_gets_no_notification:
  "department_ok (JObj [(''name'', JStr ''IT''), (''email'', JStr '''')])
   \<and> map_of [(''name'', JStr ''IT''), (''email'', JStr '''')] ''email'' = Some (JStr '''')
   \<and> JStr '''' \<noteq> JNull
   \<and> prepare_email_data sample_env [JObj [(''name'', JStr ''IT''), (''email'', JStr '''')]]
        ''- Offices close on Friday'' ''notice.pdf'' = Inr []"
  by simp

section \<open>The summarization adapter\<close>

lemma list_ex_not: "list_ex (\<lambda>d. \<not> P d) xs = (\<not> list_all P xs)"
  by (induction xs) simp_all

lemma departments_ok_iff:
  "departments_ok d = (is_list d \<and> list_all department_ok (elements d))"
  by (cases d) simp_all

lemma is_list_elements: "is_list d \<Longrightarrow> d = JArr (elements d)"
  by (cases d) simp_all

lemma check_gpt4o_fails:
  "adapter_failure env result \<Longrightarrow> \<exists>e. check_gpt4o_result env result = Inl e"
  by (auto simp add: adapter_failure_def listed_failure_def parsed_def check_gpt4o_result_def
      list_ex_not departments_ok_iff split: option.splits json.splits)

lemma check_gpt4o_passes:
  assumes "\<not> adapter_failure env result"
  shows "\<exists>v s ds. parsed env result = Some v \<and> item ''summary'' v = Some (JStr s)
       \<and> item ''departments'' v = Some (JArr ds)
       \<and> check_gpt4o_result env result = Inr (JStr s, JArr ds)"
proof -
  from assms obtain v where v: "parsed env result = Some v"
    by (auto simp add: adapter_failure_def listed_failure_def split: option.splits)
  with assms obtain kv where kv: "v = JObj kv"
    by (cases v) (simp_all add: adapter_failure_def listed_failure_def)
  from assms v kv obtain x d
    where x: "map_of kv ''summary'' = Some x" "isinstance_str x"
      and d: "map_of kv ''departments'' = Some d" "is_list d"
        "list_all department_ok (elements d)"
    by (auto simp add: adapter_failure_def listed_failure_def list_ex_not
        split: option.splits)
  from x(2) obtain s where s: "x = JStr s" using isinstance_strE by blast
  from d(2) have ds: "d = JArr (elements d)" by (rule is_list_elements)
  from v obtain raw where raw: "result = Some raw" "json_loads env raw = Some v"
    by (auto simp add: parsed_def split: option.splits)
  have "check_gpt4o_result env result = Inr (x, d)"
    using raw kv x d by (simp add: check_gpt4o_result_def departments_ok_iff)
  with v kv x(1) d(1) s ds show ?thesis by auto
qed

text \<open>
  C4, as the code has it. When the completion service answers, the adapter fails, always
  with a 500, exactly in the cases the specification lists and in one more: the value
  under \<^verbatim>\<open>departments\<close> is not a list. In every other case it returns the summary string
  and the departments list as they were parsed. It makes one call to the service and
  leaves the collection alone.
\<close>

theorem summarization_adapter_failures:
  assumes "chat_completions env (SummarizePrompt t) = Inr result"
  shows "(adapter_failure env result \<longrightarrow>
            (\<exists>detail. fst (process_with_gpt4o env t w) = Inl (HTTPException 500 detail)))
       \<and> (\<not> adapter_failure env result \<longrightarrow>
            (\<exists>v s ds. parsed env result = Some v \<and> item ''summary'' v = Some (JStr s)
               \<and> item ''departments'' v = Some (JArr ds)
               \<and> fst (process_with_gpt4o env t w) = Inr (JStr s, JArr ds)))
       \<and> snd (process_with_gpt4o env t w) = emit (EvChatCompletion (SummarizePrompt t)) w"
proof (intro conjI impI)
  assume "adapter_failure env result"
  then obtain e where "check_gpt4o_result env result = Inl e"
    using check_gpt4o_fails by blast
  with assms show "\<exists>detail. fst (process_with_gpt4o env t w) = Inl (HTTPException 500 detail)"
    by (simp add: process_with_gpt4o_def Let_def)
next
  assume "\<not> adapter_failure env result"
  from check_gpt4o_passes [OF this] obtain v s ds
    where "parsed env result = Some v" "item ''summary'' v = Some (JStr s)"
      "item ''departments'' v = Some (JArr ds)"
      "check_gpt4o_result env result = Inr (JStr s, JArr ds)"
    by blast
  with assms show "\<exists>v s ds. parsed env result = Some v \<and> item ''summary'' v = Some (JStr s)
               \<and> item ''departments'' v = Some (JArr ds)
               \<and> fst (process_with_gpt4o env t w) = Inr (JStr s, JArr ds)"
    by (simp add: process_with_gpt4o_def Let_def)
next
  show "snd (process_with_gpt4o env t w) = emit (EvChatCompletion (SummarizePrompt t)) w"
    by (rule process_snd)
qed

lemma sample_loads_hr:
  "sample_loads response_hr =
     Some (JObj [(''summary'', JStr ''- Offices close on Friday''),
                 (''departments'',
                  JArr [JObj [(''name'', JStr ''HR''), (''email'', JStr ''hr@example.org'')]])])"
  by (simp add: sample_loads_def)

lemma sample_loads_null_email:
  "sample_loads response_null_email =
     Some (JObj [(''summary'', JStr ''- Offices close on Friday''),
                 (''departments'', JArr [JObj [(''name'', JStr ''HR''), (''email'', JNull)]])])"
  by (simp add: sample_loads_def response_hr_def response_null_email_def)

lemma sample_loads_null_departments:
  "sample_loads response_null_departments =
     Some (JObj [(''summary'', JStr ''- Offices close on Friday''), (''departments'', JNull)])"
  by (simp add: sample_loads_def response_hr_def response_null_email_def
      response_null_departments_def)

theorem summarization_adapter_witness:
  "chat_completions sample_env (SummarizePrompt ''Notice'') = Inr (Some response_hr)
   \<and> \<not> adapter_failure sample_env (Some response_hr)
   \<and> fst (process_with_gpt4o sample_env ''Notice'' empty_world)
       = Inr (JStr ''- Offices close on Friday'',
              JArr [JObj [(''name'', JStr ''HR''), (''email'', JStr ''hr@example.org'')]])
   \<and> chat_completions null_departments_env (SummarizePrompt ''Notice'')
       = Inr (Some response_null_departments)
   \<and> adapter_failure null_departments_env (Some response_null_departments)
   \<and> http_status (fst (process_with_gpt4o null_departments_env ''Notice'' empty_world)) = 500"
proof -
  have a: "chat_completions sample_env (SummarizePrompt ''Notice'') = Inr (Some response_hr)"
    by (simp add: sample_env_def sample_completion_def)
  have b: "\<not> adapter_failure sample_env (Some response_hr)"
    by (simp add: adapter_failure_def listed_failure_def parsed_def sample_env_def
        sample_loads_hr)
  have c: "chat_completions null_departments_env (SummarizePrompt ''Notice'')
             = Inr (Some response_null_departments)"
    by (simp add: null_departments_env_def sample_completion_def)
  have d: "adapter_failure null_departments_env (Some response_null_departments)"
    by (simp add: adapter_failure_def listed_failure_def parsed_def null_departments_env_def
        sample_env_def sample_loads_null_departments)
  have e: "parsed sample_env (Some response_hr) =
     Some (JObj [(''summary'', JStr ''- Offices close on Friday''),
                 (''departments'',
                  JArr [JObj [(''name'', JStr ''HR''), (''email'', JStr ''hr@example.org'')]])])"
    by (simp add: parsed_def sample_env_def sample_loads_hr)
  from summarization_adapter_failures [OF a, of empty_world] b e
  have f: "fst (process_with_gpt4o sample_env ''Notice'' empty_world)
       = Inr (JStr ''- Offices close on Friday'',
              JArr [JObj [(''name'', JStr ''HR''), (''email'', JStr ''hr@example.org'')]])"
    by auto
  from summarization_adapter_failures [OF c, of empty_world] d
  have g: "http_status (fst (process_with_gpt4o null_departments_env ''Notice'' empty_world))
             = 500"
    by auto
  from a b c d f g show ?thesis by blast
qed

text \<open>
  C4, as the specification words it, fails for the response
  \<^verbatim>\<open>{"summary": "...", "departments": null}\<close>: it is parseable, has both keys, its summary
  is a string and no element of its departments lacks a key, yet the adapter fails with
  the 500.
\<close>

theorem null_departments_fail_unlisted:
  "chat_completions null_departments_env (SummarizePrompt ''Notice'')
     = Inr (Some response_null_departments)
   \<and> \<not> listed_failure null_departments_env (Some response_null_departments)
   \<and> http_status (fst (process_with_gpt4o null_departments_env ''Notice'' empty_world)) = 500"
  by (simp add: listed_failure_def parsed_def null_departments_env_def sample_env_def
      sample_loads_null_departments sample_completion_def process_with_gpt4o_def Let_def
      check_gpt4o_result_def)

section \<open>The chat handler: unknown and malformed identifiers\<close>

lemma completion_calls_emit:
  "completion_calls (emit ev w) = completion_calls w @ filter is_completion [ev]"
  by (simp add: completion_calls_def emit_def)

lemma lookup_calls_emit: "lookup_calls (emit ev w) = lookup_calls w @ filter is_lookup [ev]"
  by (simp add: lookup_calls_def emit_def)

text \<open>
  C8, as the code has it. When the identifier is one the constructor accepts, the lookup
  itself raises nothing and no stored record has that identifier, the chat handler answers
  404 "Document not found" after the one lookup and makes no call to the completion
  service.
\<close>

theorem chat_unknown_identifier:
  assumes "ObjectId env mongo_id = Inr oid"
    and "find_one_raises env oid = None"
    and "map_of (db w) oid = None"
  shows "chat env mongo_id question w
           = (Inl (HTTPException 404 ''Document not found''), emit (EvFindOne oid) w)
       \<and> http_status (fst (chat env mongo_id question w)) = 404
       \<and> completion_calls (snd (chat env mongo_id question w)) = completion_calls w
       \<and> db (snd (chat env mongo_id question w)) = db w"
  using assms
  by (simp add: chat_def answer_question_def answer_try_def Let_def db_emit
      completion_calls_emit)

theorem chat_unknown_identifier_witness:
  "ObjectId sample_env ''0123456789abcdef01234567'' = Inr ''0123456789abcdef01234567''
   \<and> find_one_raises sample_env ''0123456789abcdef01234567'' = None
   \<and> map_of (db one_record_world) ''0123456789abcdef01234567'' = None
   \<and> http_status (fst (chat sample_env ''0123456789abcdef01234567''
                            ''When do the offices close?'' one_record_world)) = 404
   \<and> completion_calls (snd (chat sample_env ''0123456789abcdef01234567''
                            ''When do the offices close?'' one_record_world)) = []"
proof -
  have a: "ObjectId sample_env ''0123456789abcdef01234567'' = Inr ''0123456789abcdef01234567''"
    by code_simp
  have b: "find_one_raises sample_env ''0123456789abcdef01234567'' = None"
    by (simp add: sample_env_def)
  have c: "map_of (db one_record_world) ''0123456789abcdef01234567'' = None"
    by (simp add: one_record_world_def)
  have d: "completion_calls one_record_world = []"
    by (simp add: completion_calls_def one_record_world_def)
  note e = chat_unknown_identifier [OF a b c, of "''When do the offices close?''"]
  from e have f: "http_status (fst (chat sample_env ''0123456789abcdef01234567''
                            ''When do the offices close?'' one_record_world)) = 404"
    by blast
  from e have "completion_calls (snd (chat sample_env ''0123456789abcdef01234567''
                            ''When do the offices close?'' one_record_world))
                 = completion_calls one_record_world"
    by blast
  with d have g: "completion_calls (snd (chat sample_env ''0123456789abcdef01234567''
                            ''When do the offices close?'' one_record_world)) = []"
    by simp
  from a b c f g show ?thesis by blast
qed

text \<open>
  C8, as the specification words it, fails for an identifier that is no ObjectId: no
  stored record matches \<^verbatim>\<open>abc\<close>, and the answer is a 500.
\<close>

theorem chat_malformed_identifier_is_500:
  "map_of (db one_record_world) ''abc'' = None
   \<and> http_status (fst (chat sample_env ''abc'' ''When do the offices close?''
                            one_record_world)) = 500"
  by (simp add: chat_def answer_question_def answer_try_def sample_env_def
      ObjectId_bson_def one_record_world_def)

lemma ObjectId_bson_wrong_length:
  "length s \<noteq> 24 \<Longrightarrow> ObjectId_bson s = Inl (invalid_id s)"
  by (simp add: ObjectId_bson_def)

text \<open>
  C9, as the code has it. When the constructor rejects the identifier, the chat handler
  answers with a 500 whose detail is the message of the generic handler, never with a
  404; the lookup is not attempted and the completion service is not called: the world is
  left as it was. The constructor of \<^verbatim>\<open>bson\<close> rejects every string that is not 24
  characters long, and every string of 24 characters that \<^verbatim>\<open>bytes.fromhex\<close> rejects.
\<close>

theorem chat_invalid_identifier:
  assumes "ObjectId env mongo_id = Inl msg"
  shows "chat env mongo_id question w
           = (Inl (HTTPException 500
                     (''Failed to answer question: '' @ msg)),
              w)
       \<and> http_status (fst (chat env mongo_id question w)) = 500
       \<and> http_status (fst (chat env mongo_id question w)) \<noteq> 404
       \<and> lookup_calls (snd (chat env mongo_id question w)) = lookup_calls w
       \<and> completion_calls (snd (chat env mongo_id question w)) = completion_calls w"
  using assms
  by (simp add: chat_def answer_question_def answer_try_def)

theorem chat_invalid_identifier_witness:
  "ObjectId sample_env ''65f0c0ffee'' = Inl (invalid_id ''65f0c0ffee'')
   \<and> chat sample_env ''65f0c0ffee'' ''When do the offices close?'' one_record_world
       = (Inl (HTTPException 500 (''Failed to answer question: '' @ invalid_id ''65f0c0ffee'')),
          one_record_world)
   \<and> http_status (fst (chat sample_env ''65f0c0ffee'' ''When do the offices close?''
                            one_record_world)) = 500"
proof -
  have "ObjectId_bson ''65f0c0ffee'' = Inl (invalid_id ''65f0c0ffee'')"
    by (rule ObjectId_bson_wrong_length) simp
  then have a: "ObjectId sample_env ''65f0c0ffee'' = Inl (invalid_id ''65f0c0ffee'')"
    by (simp add: sample_env_def)
  note b = chat_invalid_identifier [OF a, of "''When do the offices close?''" one_record_world]
  from a b show ?thesis by blast
qed

text \<open>
  C9, as the specification words it, fails for an identifier of 22 hexadecimal digits and
  two blanks: it is not 24 hexadecimal characters, yet the constructor accepts it (it
  reads eleven bytes), the lookup is made, and with a driver that raises nothing the
  answer is the 404.
\<close>

theorem chat_blank_padded_identifier_is_looked_up:
  "\<not> twenty_four_hex ''65f0c0ffee0123456789ab  ''
   \<and> ObjectId sample_env ''65f0c0ffee0123456789ab  '' = Inr ''65f0c0ffee0123456789ab''
   \<and> lookup_calls (snd (chat sample_env ''65f0c0ffee0123456789ab  ''
                           ''When do the offices close?'' one_record_world))
       = [EvFindOne ''65f0c0ffee0123456789ab'']
   \<and> http_status (fst (chat sample_env ''65f0c0ffee0123456789ab  ''
                            ''When do the offices close?'' one_record_world)) = 404"
proof -
  have a: "\<not> twenty_four_hex ''65f0c0ffee0123456789ab  ''"
    by code_simp
  have b: "ObjectId sample_env ''65f0c0ffee0123456789ab  '' = Inr ''65f0c0ffee0123456789ab''"
    by code_simp
  have c: "find_one_raises sample_env ''65f0c0ffee0123456789ab'' = None"
    by (simp add: sample_env_def)
  have d: "map_of (db one_record_world) ''65f0c0ffee0123456789ab'' = None"
    by (simp add: one_record_world_def)
  have e: "log one_record_world = []"
    by (simp add: one_record_world_def)
  have f: "chat sample_env ''65f0c0ffee0123456789ab  '' ''When do the offices close?''
             one_record_world
           = (Inl (HTTPException 404 ''Document not found''),
              emit (EvFindOne ''65f0c0ffee0123456789ab'') one_record_world)"
    using b c d by (simp add: chat_def answer_question_def answer_try_def Let_def db_emit)
  have g: "lookup_calls (emit (EvFindOne ''65f0c0ffee0123456789ab'') one_record_world)
             = [EvFindOne ''65f0c0ffee0123456789ab'']"
    using e by (simp add: lookup_calls_def emit_def)
  from a b f g show ?thesis by simp
qed

section \<open>The upload handler: what is stored\<close>

lemma upload_store_valid:
  assumes "list_all department_ok ds"
  shows "upload_store env f bg t s ds w =
     (let email_data = List.map_filter (notification env s f) ds;
          w1 = (if bg then emit (EvAddTask email_data) w else w);
          document = new_document env f t s ds email_data;
          w2 = emit (EvInsertOne document) w1
      in (case insert_one env (db w2) document of
            Inl msg \<Rightarrow> (Inl (PyExc msg), w2)
          | Inr inserted_id \<Rightarrow>
              (new_SummaryResponse env f ds s inserted_id,
               w2\<lparr>db := db w2 @ [(inserted_id, document)]\<rparr>)))"
  by (simp add: upload_store_def prepare_email_data_valid [OF assms] Let_def)

lemma upload_store_insert_fails:
  assumes "list_all department_ok ds"
    and "insert_one env (db w)
           (new_document env f t s ds (List.map_filter (notification env s f) ds)) = Inl msg"
  shows "fst (upload_store env f bg t s ds w) = Inl (PyExc msg)
       \<and> db (snd (upload_store env f bg t s ds w)) = db w"
  using assms(2) by (simp add: upload_store_valid [OF assms(1)] Let_def db_emit)

lemma upload_store_inserted:
  assumes "list_all department_ok ds"
    and "insert_one env (db w)
           (new_document env f t s ds (List.map_filter (notification env s f) ds)) = Inr oid"
  shows "fst (upload_store env f bg t s ds w) = new_SummaryResponse env f ds s oid
       \<and> db (snd (upload_store env f bg t s ds w))
           = db w @ [(oid, new_document env f t s ds
                             (List.map_filter (notification env s f) ds))]
       \<and> insert_calls (snd (upload_store env f bg t s ds w))
           = insert_calls w @ [EvInsertOne (new_document env f t s ds
                                 (List.map_filter (notification env s f) ds))]"
  using assms(2)
  by (simp add: upload_store_valid [OF assms(1)] Let_def db_emit insert_calls_emit
      insert_calls_def emit_def)

lemma upload_store_db:
  assumes "list_all department_ok ds"
  shows "db (snd (upload_store env f bg t s ds w)) = db w
       \<or> (\<exists>oid entries. db (snd (upload_store env f bg t s ds w))
             = db w @ [(oid, new_document env f t s ds entries)])"
proof (cases "insert_one env (db w)
           (new_document env f t s ds (List.map_filter (notification env s f) ds))")
  case (Inl msg)
  then show ?thesis using upload_store_insert_fails [OF assms Inl] by simp
next
  case (Inr oid)
  then show ?thesis using upload_store_inserted [OF assms Inr] by blast
qed

lemma upload_pdf_result:
  assumes "ends_with_pdf_any_case f" and "upload_try env f bg w = (r, w')"
  shows "snd (upload_pdf env f bg w) = w'"
    and "r = Inl e \<Longrightarrow> fst (upload_pdf env f bg w) = Inl (reraise ''Internal server error: '' e)"
    and "r = Inr a \<Longrightarrow> fst (upload_pdf env f bg w) = Inr a"
  using assms by (auto simp add: upload_pdf_accepted split: sum.splits)

lemma those_None: "None \<in> set xs \<Longrightarrow> those xs = None"
  by (induction xs) (auto split: option.splits)

lemma dict_str_str_null:
  assumes "map_of kv k = Some JNull"
  shows "dict_str_str env (JObj kv) = None"
proof -
  from assms have "(k, JNull) \<in> set kv" by (rule map_of_SomeD)
  then have "(\<lambda>(k, v). map_option (Pair k) (str_field env v)) (k, JNull)
               \<in> set (map (\<lambda>(k, v). map_option (Pair k) (str_field env v)) kv)"
    by (rule imageI [of _ "set kv", folded set_map])
  then have "None \<in> set (map (\<lambda>(k, v). map_option (Pair k) (str_field env v)) kv)"
    by simp
  then show ?thesis by (simp add: those_None)
qed

lemma new_SummaryResponse_null:
  assumes "JObj kv \<in> set ds" and "map_of kv k = Some JNull"
  shows "new_SummaryResponse env f ds s i = Inl (PyExc (validation_error env ds))"
proof -
  from assms(1) have "dict_str_str env (JObj kv) \<in> set (map (dict_str_str env) ds)"
    by (rule imageI [of _ "set ds", folded set_map])
  then have "None \<in> set (map (dict_str_str env) ds)"
    using dict_str_str_null [OF assms(2)] by simp
  then show ?thesis by (simp add: new_SummaryResponse_def those_None)
qed

text \<open>
  C1. For an accepted file whose content was read: when the extraction fails, or the
  summarization (the call or the validation of its output) fails, the handler answers
  with a 500, the collection is as before and no insert was attempted. And whatever
  happens, the collection afterwards is either as before or has one more record, which
  holds the file name, the extracted text, the summary and the departments together.
\<close>

theorem upload_failure_stores_nothing:
  assumes "ends_with_pdf_any_case filename"
    and "file_read env = Inr content"
  shows "((\<exists>e. fst (extract_text_from_pdf env content w) = Inl e)
          \<or> (\<exists>t e. fst (extract_text_from_pdf env content w) = Inr t
                \<and> fst (process_with_gpt4o env t (emit (EvProcessDocument content) w)) = Inl e)
          \<longrightarrow> http_status (fst (upload_pdf env filename bg w)) = 500
              \<and> db (snd (upload_pdf env filename bg w)) = db w
              \<and> insert_calls (snd (upload_pdf env filename bg w)) = insert_calls w)
       \<and> (db (snd (upload_pdf env filename bg w)) = db w
          \<or> (\<exists>oid doc. db (snd (upload_pdf env filename bg w)) = db w @ [(oid, doc)]
                \<and> d_filename doc = filename
                \<and> fst (extract_text_from_pdf env content w) = Inr (d_extracted_text doc)
                \<and> fst (process_with_gpt4o env (d_extracted_text doc)
                          (emit (EvProcessDocument content) w))
                    = Inr (JStr (d_summary doc), JArr (d_departments doc))))"
proof (cases "fst (extract_text_from_pdf env content w)")
  case (Inl e)
  from extract_error [OF Inl] obtain d where d: "e = HTTPException 500 d" by blast
  note t = upload_try_extract_fails [OF assms(2) Inl, of filename bg]
  have "http_status (fst (upload_pdf env filename bg w)) = 500"
    using upload_pdf_result(2) [OF assms(1) t] d by simp
  moreover have "snd (upload_pdf env filename bg w) = emit (EvProcessDocument content) w"
    using upload_pdf_result(1) [OF assms(1) t] .
  ultimately show ?thesis by (simp add: db_emit insert_calls_emit)
next
  case x: (Inr t)
  let ?w1 = "emit (EvProcessDocument content) w"
  let ?w2 = "emit (EvChatCompletion (SummarizePrompt t)) ?w1"
  show ?thesis
  proof (cases "fst (process_with_gpt4o env t w)")
    case (Inl e)
    from process_error [OF Inl] obtain d where d: "e = HTTPException 500 d" by blast
    note u = upload_try_process_fails [OF assms(2) x Inl, of filename bg]
    have "http_status (fst (upload_pdf env filename bg w)) = 500"
      using upload_pdf_result(2) [OF assms(1) u] d by simp
    moreover have "snd (upload_pdf env filename bg w) = ?w2"
      using upload_pdf_result(1) [OF assms(1) u] .
    ultimately show ?thesis by (simp add: db_emit insert_calls_emit)
  next
    case r: (Inr r)
    obtain s d where sd: "r = (s, d)" by fastforce
    with r process_shape [of env t w s d] have "isinstance_str s" "departments_ok d"
      by simp_all
    then obtain summary ds where shape: "s = JStr summary" "d = JArr ds"
      and ok: "list_all department_ok ds"
      using isinstance_strE [of s] departments_okE [of d] by blast
    from r sd shape have p: "fst (process_with_gpt4o env t w) = Inr (JStr summary, JArr ds)"
      by simp
    then have p1: "fst (process_with_gpt4o env t ?w1) = Inr (JStr summary, JArr ds)"
      using process_fst_world [of env t ?w1 w] by simp
    have u: "upload_try env filename bg w = upload_store env filename bg t summary ds ?w2"
      by (rule upload_try_stores [OF assms(2) x p])
    obtain res w' where rw: "upload_store env filename bg t summary ds ?w2 = (res, w')"
      by fastforce
    with u have "upload_try env filename bg w = (res, w')" by simp
    from upload_pdf_result(1) [OF assms(1) this] rw
    have w': "snd (upload_pdf env filename bg w)
                = snd (upload_store env filename bg t summary ds ?w2)"
      by simp
    have no_failure: "\<not> ((\<exists>e. fst (extract_text_from_pdf env content w) = Inl e)
          \<or> (\<exists>t e. fst (extract_text_from_pdf env content w) = Inr t
                \<and> fst (process_with_gpt4o env t ?w1) = Inl e))"
      using x p1 by auto
    from upload_store_db [OF ok, of env filename bg t summary ?w2]
    have "db (snd (upload_pdf env filename bg w)) = db w
       \<or> (\<exists>oid entries. db (snd (upload_pdf env filename bg w))
             = db w @ [(oid, new_document env filename t summary ds entries)])"
      unfolding w' by (simp add: db_emit)
    then have "db (snd (upload_pdf env filename bg w)) = db w
          \<or> (\<exists>oid doc. db (snd (upload_pdf env filename bg w)) = db w @ [(oid, doc)]
                \<and> d_filename doc = filename
                \<and> fst (extract_text_from_pdf env content w) = Inr (d_extracted_text doc)
                \<and> fst (process_with_gpt4o env (d_extracted_text doc) ?w1)
                    = Inr (JStr (d_summary doc), JArr (d_departments doc)))"
    proof
      assume "db (snd (upload_pdf env filename bg w)) = db w"
      then show ?thesis by (rule disjI1)
    next
      assume "\<exists>oid entries. db (snd (upload_pdf env filename bg w))
             = db w @ [(oid, new_document env filename t summary ds entries)]"
      then obtain oid entries where "db (snd (upload_pdf env filename bg w))
             = db w @ [(oid, new_document env filename t summary ds entries)]"
        by blast
      with x p1 have "db (snd (upload_pdf env filename bg w))
             = db w @ [(oid, new_document env filename t summary ds entries)]
          \<and> d_filename (new_document env filename t summary ds entries) = filename
          \<and> fst (extract_text_from_pdf env content w)
              = Inr (d_extracted_text (new_document env filename t summary ds entries))
          \<and> fst (process_with_gpt4o env
                    (d_extracted_text (new_document env filename t summary ds entries)) ?w1)
              = Inr (JStr (d_summary (new_document env filename t summary ds entries)),
                     JArr (d_departments (new_document env filename t summary ds entries)))"
        by (simp add: new_document_def)
      then show ?thesis by blast
    qed
    with no_failure show ?thesis by blast
  qed
qed

lemma sample_extract:
  "process_document env c = Inr t \<Longrightarrow> t \<noteq> [] \<Longrightarrow>
     fst (extract_text_from_pdf env c w) = Inr t"
  by (simp add: extract_text_from_pdf_def Let_def)

text \<open>
  A document service that finds no text, and a model that answers with null departments:
  a 500 each time, and the empty collection stays empty.
\<close>

theorem upload_failure_stores_nothing_witness:
  "ends_with_pdf_any_case ''notice.pdf''
   \<and> file_read no_text_env = Inr ''%PDF-1.4 notice''
   \<and> isl (fst (extract_text_from_pdf no_text_env ''%PDF-1.4 notice'' empty_world))
   \<and> http_status (fst (upload_pdf no_text_env ''notice.pdf'' True empty_world)) = 500
   \<and> db (snd (upload_pdf no_text_env ''notice.pdf'' True empty_world)) = []
   \<and> file_read null_departments_env = Inr ''%PDF-1.4 notice''
   \<and> fst (extract_text_from_pdf null_departments_env ''%PDF-1.4 notice'' empty_world)
       = Inr ''Notice: offices close on Friday. HR: hr@example.org''
   \<and> isl (fst (process_with_gpt4o null_departments_env
                  ''Notice: offices close on Friday. HR: hr@example.org''
                  (emit (EvProcessDocument ''%PDF-1.4 notice'') empty_world)))
   \<and> http_status (fst (upload_pdf null_departments_env ''notice.pdf'' True empty_world)) = 500
   \<and> db (snd (upload_pdf null_departments_env ''notice.pdf'' True empty_world)) = []"
proof -
  have a: "ends_with_pdf_any_case ''notice.pdf''"
    by (simp add: ends_with_pdf_any_case_def)
  have b: "file_read no_text_env = Inr ''%PDF-1.4 notice''"
    by (simp add: no_text_env_def sample_env_def)
  have c: "fst (extract_text_from_pdf no_text_env ''%PDF-1.4 notice'' empty_world)
             = Inl (HTTPException 500
                 (''Failed to extract text from PDF: ''
                    @ str_exn (PyExc ''No text extracted from the document'')))"
    by (simp add: extract_text_from_pdf_def Let_def no_text_env_def)
  have d: "db empty_world = []"
    by (simp add: empty_world_def)
  from upload_failure_stores_nothing [OF a b, of empty_world True] c d
  have e: "http_status (fst (upload_pdf no_text_env ''notice.pdf'' True empty_world)) = 500
         \<and> db (snd (upload_pdf no_text_env ''notice.pdf'' True empty_world)) = []"
    by auto
  have f: "file_read null_departments_env = Inr ''%PDF-1.4 notice''"
    by (simp add: null_departments_env_def sample_env_def)
  have g: "fst (extract_text_from_pdf null_departments_env ''%PDF-1.4 notice'' empty_world)
             = Inr ''Notice: offices close on Friday. HR: hr@example.org''"
    by (rule sample_extract) (simp_all add: null_departments_env_def sample_env_def)
  have h: "fst (process_with_gpt4o null_departments_env
                  ''Notice: offices close on Friday. HR: hr@example.org''
                  (emit (EvProcessDocument ''%PDF-1.4 notice'') empty_world))
             = Inl (HTTPException 500
                 (''Failed to process text with Azure OpenAI: ''
                    @ str_exn (HTTPException 500
                        ''Invalid departments format returned from Azure OpenAI'')))"
    by (simp add: process_with_gpt4o_def Let_def null_departments_env_def sample_env_def
        sample_completion_def check_gpt4o_result_def sample_loads_null_departments)
  from upload_failure_stores_nothing [OF a f, of empty_world True] g h d
  have i: "http_status (fst (upload_pdf null_departments_env ''notice.pdf'' True empty_world))
             = 500
         \<and> db (snd (upload_pdf null_departments_env ''notice.pdf'' True empty_world)) = []"
    by auto
  from c have c': "isl (fst (extract_text_from_pdf no_text_env ''%PDF-1.4 notice'' empty_world))"
    by simp
  from h have h': "isl (fst (process_with_gpt4o null_departments_env
                  ''Notice: offices close on Friday. HR: hr@example.org''
                  (emit (EvProcessDocument ''%PDF-1.4 notice'') empty_world)))"
    by simp
  from a b c' e f g h' i show ?thesis by blast
qed

text \<open>
  C10. \<^verbatim>\<open>SummaryResponse\<close> wants every value of every department to be a string. When
  an accepted upload gets through extraction and summarization with a department whose
  email is null, and the insert succeeds, the construction of the response fails after
  the insert: the record is in the collection and the caller gets a 500.
\<close>

theorem upload_null_email_stored_then_500:
  assumes "ends_with_pdf_any_case filename"
    and "file_read env = Inr content"
    and "fst (extract_text_from_pdf env content w) = Inr t"
    and "fst (process_with_gpt4o env t (emit (EvProcessDocument content) w))
           = Inr (JStr summary, JArr departments)"
    and "JObj d \<in> set departments"
    and "map_of d ''email'' = Some JNull"
    and "document = new_document env filename t summary departments
                      (List.map_filter (notification env summary filename) departments)"
    and "insert_one env (db w) document = Inr oid"
  shows "fst (upload_pdf env filename bg w)
           = Inl (HTTPException 500
                    (''Internal server error: '' @ validation_error env departments))
       \<and> http_status (fst (upload_pdf env filename bg w)) = 500
       \<and> db (snd (upload_pdf env filename bg w)) = db w @ [(oid, document)]
       \<and> insert_calls (snd (upload_pdf env filename bg w))
           = insert_calls w @ [EvInsertOne document]"
proof -
  let ?w1 = "emit (EvProcessDocument content) w"
  let ?w2 = "emit (EvChatCompletion (SummarizePrompt t)) ?w1"
  have p: "fst (process_with_gpt4o env t w) = Inr (JStr summary, JArr departments)"
    using assms(4) process_fst_world [of env t w ?w1] by simp
  have ok: "list_all department_ok departments"
    using process_shape [OF p] by simp
  have u: "upload_try env filename bg w
             = upload_store env filename bg t summary departments ?w2"
    by (rule upload_try_stores [OF assms(2,3) p])
  have ins: "insert_one env (db ?w2)
               (new_document env filename t summary departments
                  (List.map_filter (notification env summary filename) departments))
             = Inr oid"
    using assms(7,8) by (simp add: db_emit)
  note st = upload_store_inserted [OF ok ins, of bg]
  have res: "fst (upload_store env filename bg t summary departments ?w2)
               = Inl (PyExc (validation_error env departments))"
    using st new_SummaryResponse_null [OF assms(5,6)] by simp
  obtain r w' where rw: "upload_store env filename bg t summary departments ?w2 = (r, w')"
    by fastforce
  with u have t: "upload_try env filename bg w = (r, w')" by simp
  from rw res have r: "r = Inl (PyExc (validation_error env departments))" by simp
  have a: "fst (upload_pdf env filename bg w)
           = Inl (HTTPException 500
                    (''Internal server error: '' @ validation_error env departments))"
    using upload_pdf_result(2) [OF assms(1) t r] by simp
  have w': "snd (upload_pdf env filename bg w)
              = snd (upload_store env filename bg t summary departments ?w2)"
    using upload_pdf_result(1) [OF assms(1) t] rw by simp
  have b: "db (snd (upload_pdf env filename bg w)) = db w @ [(oid, document)]"
    unfolding w' using st assms(7) by (simp add: db_emit)
  have c: "insert_calls (snd (upload_pdf env filename bg w))
             = insert_calls w @ [EvInsertOne document]"
    unfolding w' using st assms(7) by (simp add: insert_calls_emit)
  from a have "http_status (fst (upload_pdf env filename bg w)) = 500" by simp
  with a b c show ?thesis by blast
qed

theorem upload_null_email_stored_then_500_witness:
  "ends_with_pdf_any_case ''notice.pdf''
   \<and> file_read null_email_env = Inr ''%PDF-1.4 notice''
   \<and> fst (extract_text_from_pdf null_email_env ''%PDF-1.4 notice'' empty_world)
       = Inr ''Notice: offices close on Friday. HR: hr@example.org''
   \<and> fst (process_with_gpt4o null_email_env
             ''Notice: offices close on Friday. HR: hr@example.org''
             (emit (EvProcessDocument ''%PDF-1.4 notice'') empty_world))
       = Inr (JStr ''- Offices close on Friday'',
              JArr [JObj [(''name'', JStr ''HR''), (''email'', JNull)]])
   \<and> map_of [(''name'', JStr ''HR''), (''email'', JNull)] ''email'' = Some JNull
   \<and> insert_one null_email_env (db empty_world)
        (new_document null_email_env ''notice.pdf''
           ''Notice: offices close on Friday. HR: hr@example.org''
           ''- Offices close on Friday'' [JObj [(''name'', JStr ''HR''), (''email'', JNull)]] [])
       = Inr ''65f0c0ffee0123456789abcd''
   \<and> http_status (fst (upload_pdf null_email_env ''notice.pdf'' True empty_world)) = 500
   \<and> db (snd (upload_pdf null_email_env ''notice.pdf'' True empty_world))
       = [(''65f0c0ffee0123456789abcd'',
           new_document null_email_env ''notice.pdf''
             ''Notice: offices close on Friday. HR: hr@example.org''
             ''- Offices close on Friday'' [JObj [(''name'', JStr ''HR''), (''email'', JNull)]]
             [])]"
proof -
  let ?ds = "[JObj [(''name'', JStr ''HR''), (''email'', JNull)]]"
  let ?t = "''Notice: offices close on Friday. HR: hr@example.org''"
  let ?doc = "new_document null_email_env ''notice.pdf'' ?t ''- Offices close on Friday'' ?ds []"
  have a: "ends_with_pdf_any_case ''notice.pdf''"
    by (simp add: ends_with_pdf_any_case_def)
  have b: "file_read null_email_env = Inr ''%PDF-1.4 notice''"
    by (simp add: null_email_env_def sample_env_def)
  have c: "fst (extract_text_from_pdf null_email_env ''%PDF-1.4 notice'' empty_world) = Inr ?t"
    by (rule sample_extract) (simp_all add: null_email_env_def sample_env_def)
  have d: "fst (process_with_gpt4o null_email_env ?t
                  (emit (EvProcessDocument ''%PDF-1.4 notice'') empty_world))
             = Inr (JStr ''- Offices close on Friday'', JArr ?ds)"
    by (simp add: process_with_gpt4o_def Let_def null_email_env_def sample_env_def
        sample_completion_def check_gpt4o_result_def sample_loads_null_email)
  have e: "JObj [(''name'', JStr ''HR''), (''email'', JNull)] \<in> set ?ds"
    by simp
  have f: "map_of [(''name'', JStr ''HR''), (''email'', JNull)] ''email'' = Some JNull"
    by simp
  have g: "?doc = new_document null_email_env ''notice.pdf'' ?t ''- Offices close on Friday'' ?ds
                    (List.map_filter
                       (notification null_email_env ''- Offices close on Friday'' ''notice.pdf'')
                       ?ds)"
    by (simp add: map_filter_simps notification_def)
  have h: "insert_one null_email_env (db empty_world) ?doc = Inr ''65f0c0ffee0123456789abcd''"
    by (simp add: null_email_env_def sample_env_def)
  have i: "db empty_world = []"
    by (simp add: empty_world_def)
  note j = upload_null_email_stored_then_500 [OF a b c d e f g h, of True]
  from j have k: "http_status (fst (upload_pdf null_email_env ''notice.pdf'' True empty_world))
                    = 500"
    by blast
  from j i have l: "db (snd (upload_pdf null_email_env ''notice.pdf'' True empty_world))
                      = [(''65f0c0ffee0123456789abcd'', ?doc)]"
    by simp
  from a b c d f h k l show ?thesis by blast
qed

end
